theory Spec2Isabelle
  imports Complex_Main "HOL-Library.AList" "HOL-Library.Char_ord" "HOL-Library.List_Lexorder"
begin

text \<open>
  The class \<^verbatim>\<open>AncovaAnalysis\<close> of \<^verbatim>\<open>src/ANCOVA.js\<close>: an analysis of covariance over a
  \<^verbatim>\<open>DataFrame\<close>, by two least-squares fits through the normal equations and a partial
  F-test. Each method is a function of the model with the name of the method; a
  \<^verbatim>\<open>throw\<close> is a result \<open>Inl\<close>; the objects a method shares with its caller live in a
  store that the function takes and returns.
\<close>

section \<open>Numbers\<close>

text \<open>
  The numbers of \<^verbatim>\<open>ANCOVA.js\<close> are IEEE doubles. The model computes with exact reals
  and keeps the three values that are not finite numbers: \<^verbatim>\<open>Infinity\<close>, \<^verbatim>\<open>-Infinity\<close>
  and \<^verbatim>\<open>NaN\<close> (also \<^verbatim>\<open>undefined\<close> once it is used as an operand). Rounding and overflow
  are outside the model, and so is the sign of zero: the model has one zero, taken as
  \<open>+0\<close>, so the sign of an infinity that the language obtains by dividing by \<open>-0\<close> is
  the opposite of the model's. Whether a result is a finite number does not depend on
  that sign.
\<close>

datatype jsnum = Fin real | PInf | NInf | NaN

fun jneg :: "jsnum \<Rightarrow> jsnum" where
  "jneg (Fin a) = Fin (- a)"
| "jneg PInf = NInf"
| "jneg NInf = PInf"
| "jneg NaN = NaN"

fun jadd :: "jsnum \<Rightarrow> jsnum \<Rightarrow> jsnum" where
  "jadd (Fin a) (Fin b) = Fin (a + b)"
| "jadd NaN _ = NaN"
| "jadd _ NaN = NaN"
| "jadd PInf NInf = NaN"
| "jadd NInf PInf = NaN"
| "jadd PInf _ = PInf"
| "jadd _ PInf = PInf"
| "jadd NInf _ = NInf"
| "jadd _ NInf = NInf"

definition jsub :: "jsnum \<Rightarrow> jsnum \<Rightarrow> jsnum" where
  "jsub a b = jadd a (jneg b)"

text \<open>An infinity with the sign of a real number that is not zero.\<close>

definition inf_of :: "real \<Rightarrow> jsnum" where
  "inf_of s = (if 0 < s then PInf else NInf)"

fun jmul :: "jsnum \<Rightarrow> jsnum \<Rightarrow> jsnum" where
  "jmul (Fin a) (Fin b) = Fin (a * b)"
| "jmul NaN _ = NaN"
| "jmul _ NaN = NaN"
| "jmul PInf (Fin b) = (if b = 0 then NaN else inf_of b)"
| "jmul NInf (Fin b) = (if b = 0 then NaN else inf_of (- b))"
| "jmul (Fin a) PInf = (if a = 0 then NaN else inf_of a)"
| "jmul (Fin a) NInf = (if a = 0 then NaN else inf_of (- a))"
| "jmul PInf PInf = PInf"
| "jmul NInf NInf = PInf"
| "jmul PInf NInf = NInf"
| "jmul NInf PInf = NInf"

text \<open>
  A finite number divided by zero is an infinity, or \<^verbatim>\<open>NaN\<close> for \<open>0 / 0\<close>; a finite number
  divided by an infinity is zero.
\<close>

fun jdiv :: "jsnum \<Rightarrow> jsnum \<Rightarrow> jsnum" where
  "jdiv (Fin a) (Fin b) =
     (if b \<noteq> 0 then Fin (a / b) else if a = 0 then NaN else inf_of a)"
| "jdiv NaN _ = NaN"
| "jdiv _ NaN = NaN"
| "jdiv (Fin a) PInf = Fin 0"
| "jdiv (Fin a) NInf = Fin 0"
| "jdiv PInf (Fin b) = (if b < 0 then NInf else PInf)"
| "jdiv NInf (Fin b) = (if b < 0 then PInf else NInf)"
| "jdiv PInf PInf = NaN"
| "jdiv PInf NInf = NaN"
| "jdiv NInf PInf = NaN"
| "jdiv NInf NInf = NaN"

text \<open>\<^verbatim>\<open>Math.sqrt\<close> of a negative number is \<^verbatim>\<open>NaN\<close>.\<close>

fun Math_sqrt :: "jsnum \<Rightarrow> jsnum" where
  "Math_sqrt (Fin a) = (if a < 0 then NaN else Fin (sqrt a))"
| "Math_sqrt PInf = PInf"
| "Math_sqrt NInf = NaN"
| "Math_sqrt NaN = NaN"

fun Math_abs :: "jsnum \<Rightarrow> jsnum" where
  "Math_abs (Fin a) = Fin \<bar>a\<bar>"
| "Math_abs PInf = PInf"
| "Math_abs NInf = PInf"
| "Math_abs NaN = NaN"

text \<open>\<^verbatim>\<open>a < b\<close>: false when an operand is \<^verbatim>\<open>NaN\<close>.\<close>

fun jless :: "jsnum \<Rightarrow> jsnum \<Rightarrow> bool" where
  "jless (Fin a) (Fin b) = (a < b)"
| "jless NaN _ = False"
| "jless _ NaN = False"
| "jless NInf (Fin b) = True"
| "jless NInf PInf = True"
| "jless (Fin a) PInf = True"
| "jless _ _ = False"

text \<open>\<^verbatim>\<open>xs[i]\<close> as an operand: \<^verbatim>\<open>undefined\<close> past the end, which arithmetic turns into \<^verbatim>\<open>NaN\<close>.\<close>

definition elt :: "jsnum list \<Rightarrow> nat \<Rightarrow> jsnum" where
  "elt xs i = (if i < length xs then xs ! i else NaN)"

section \<open>Errors\<close>

text \<open>
  One constructor for each \<^verbatim>\<open>throw\<close> of \<^verbatim>\<open>ANCOVA.js\<close>, and \<open>TypeError\<close> for the
  errors the language raises by itself (a property read on \<^verbatim>\<open>undefined\<close>, a spread of
  something that is not iterable).
\<close>

datatype error =
    TypeError
  | NotDataFrame
  | DependentVarNotFound string
  | DependentVarNotNumeric string
  | CovariateNotFound string
  | CovariateNotNumeric string
  | GroupVarNotFound string
  | SingularMatrixError

section \<open>The statistics library\<close>

text \<open>
  \<^verbatim>\<open>_fitModel\<close> and \<^verbatim>\<open>_partialFTest\<close> receive the library \<^verbatim>\<open>jStat\<close> as an argument and
  call \<^verbatim>\<open>jStat.det\<close>, \<^verbatim>\<open>jStat.inv\<close>, \<^verbatim>\<open>jStat.studentt.cdf\<close> and
  \<^verbatim>\<open>jStat.centralF.cdf\<close>. The library is no part of the repository: the model takes
  it as a record of functions.
\<close>

record jStat =
  det :: "jsnum list list \<Rightarrow> jsnum"
  inv_mat :: "jsnum list list \<Rightarrow> jsnum list list"
  studentt_cdf :: "jsnum \<Rightarrow> jsnum \<Rightarrow> jsnum"
  centralF_cdf :: "jsnum \<Rightarrow> jsnum \<Rightarrow> jsnum \<Rightarrow> jsnum"

section \<open>The model fitter\<close>

record FittedModel =
  beta :: "jsnum list"
  se :: "jsnum list"
  tStats :: "jsnum list"
  pValues :: "jsnum list"
  yhat :: "jsnum list"
  residuals :: "jsnum list"
  rss :: jsnum
  df :: int
  s2 :: jsnum
  XtX_inv :: "jsnum list list"

text \<open>
  The three nested loops of \<^verbatim>\<open>_fitModel\<close> that fill \<^verbatim>\<open>XtX\<close>, started from the
  \<open>p \<times> p\<close> matrix of zeros:
  \<^verbatim>\<open>XtX[j][k] += X[i][j] * X[i][k]\<close>.
\<close>

definition XtX :: "jsnum list list \<Rightarrow> nat \<Rightarrow> nat \<Rightarrow> jsnum list list" where
  "XtX X n p =
     fold (\<lambda>i G. fold (\<lambda>j G. fold (\<lambda>k G.
         G[j := (G ! j)[k := jadd (G ! j ! k) (jmul (elt (X ! i) j) (elt (X ! i) k))]])
       [0..<p] G) [0..<p] G) [0..<n]
     (replicate p (replicate p (Fin 0)))"

text \<open>The two loops for \<^verbatim>\<open>XtY\<close>: \<^verbatim>\<open>XtY[j] += X[i][j] * y[i]\<close>.\<close>

definition XtY :: "jsnum list list \<Rightarrow> jsnum list \<Rightarrow> nat \<Rightarrow> nat \<Rightarrow> jsnum list" where
  "XtY X y n p =
     fold (\<lambda>i v. fold (\<lambda>j v.
         v[j := jadd (v ! j) (jmul (elt (X ! i) j) (elt y i))])
       [0..<p] v) [0..<n]
     (replicate p (Fin 0))"

text \<open>\<^verbatim>\<open>row.reduce((acc, val, idx) => acc + val * v[idx], 0)\<close>\<close>

definition reduce_dot :: "jsnum list \<Rightarrow> jsnum list \<Rightarrow> jsnum" where
  "reduce_dot row v =
     fold (\<lambda>(idx, val) acc. jadd acc (jmul val (elt v idx))) (enumerate 0 row) (Fin 0)"

definition fitModel :: "jsnum list list \<Rightarrow> jsnum list \<Rightarrow> jStat \<Rightarrow> error + FittedModel" where
  "fitModel X y J =
     (case X of
        [] \<Rightarrow> Inl TypeError
      | X0 # _ \<Rightarrow>
         let n = length X;
             p = length X0;
             G = XtX X n p
         in if jless (Math_abs (det J G)) (Fin (1 / 10 ^ 12)) then Inl SingularMatrixError
            else
              let v = XtY X y n p;
                  Ginv = inv_mat J G;
                  b = map (\<lambda>row. reduce_dot row v) Ginv;
                  fitted = map (\<lambda>row. reduce_dot row b) X;
                  res = map (\<lambda>(idx, val). jsub val (elt fitted idx)) (enumerate 0 y);
                  r = fold (\<lambda>r acc. jadd acc (jmul r r)) res (Fin 0);
                  d = int n - int p;
                  s = jdiv r (Fin (real_of_int d));
                  e = map (\<lambda>(i, row). Math_sqrt (jmul s (elt row i))) (enumerate 0 Ginv);
                  t = map (\<lambda>(i, b). jdiv b (elt e i)) (enumerate 0 b);
                  pv = map (\<lambda>t. jmul (Fin 2)
                         (jsub (Fin 1) (studentt_cdf J (Math_abs t) (Fin (real_of_int d))))) t
              in Inr \<lparr> beta = b, se = e, tStats = t, pValues = pv, yhat = fitted,
                       residuals = res, rss = r, df = d, s2 = s, XtX_inv = Ginv \<rparr>)"

text \<open>
  The Gram matrix \<^verbatim>\<open>XtX\<close> as \<^verbatim>\<open>_fitModel\<close> computes it from a matrix with at least one row,
  and its test \<^verbatim>\<open>Math.abs(jStat.det(XtX)) < 1e-12\<close>.
\<close>

definition gram :: "jsnum list list \<Rightarrow> jsnum list list" where
  "gram X = XtX X (length X) (length (hd X))"

definition singular :: "jStat \<Rightarrow> jsnum list list \<Rightarrow> bool" where
  "singular J X = jless (Math_abs (det J (gram X))) (Fin (1 / 10 ^ 12))"

section \<open>The nested-model comparator\<close>

record PartialF =
  fStatistic :: jsnum
  pValue :: jsnum

text \<open>
  \<^verbatim>\<open>_partialFTest\<close> has no \<^verbatim>\<open>throw\<close>: every call returns. The parameter
  \<^verbatim>\<open>df_reduced\<close> is not used by the body.
\<close>

definition partialFTest ::
  "jsnum \<Rightarrow> jsnum \<Rightarrow> int \<Rightarrow> int \<Rightarrow> int \<Rightarrow> jStat \<Rightarrow> error + PartialF" where
  "partialFTest RSS_reduced RSS_full df_reduced df_full nParamsAdded J =
     (let numerator = jdiv (jsub RSS_reduced RSS_full) (Fin (real_of_int nParamsAdded));
          denominator = jdiv RSS_full (Fin (real_of_int df_full));
          f = jdiv numerator denominator;
          pv = jsub (Fin 1)
                 (centralF_cdf J f (Fin (real_of_int nParamsAdded)) (Fin (real_of_int df_full)))
      in Inr \<lparr> fStatistic = f, pValue = pv \<rparr>)"

section \<open>Data frames in the store\<close>

text \<open>
  A column is a \<^verbatim>\<open>Float64Array\<close> of finite numbers or an array of strings; a cell is one
  of its values. Group levels are cells.
\<close>

datatype cell = Num real | Str string

datatype column = NumCol "real list" | StrCol "string list"

fun cells :: "column \<Rightarrow> cell list" where
  "cells (NumCol xs) = map Num xs"
| "cells (StrCol ss) = map Str ss"

fun column_length :: "column \<Rightarrow> nat" where
  "column_length (NumCol xs) = length xs"
| "column_length (StrCol ss) = length ss"

text \<open>
  Arrays and objects live in a store, so that two references to one array are two
  equal addresses. A \<^verbatim>\<open>DataFrame\<close> instance has the fields \<^verbatim>\<open>_data\<close> (an object from
  column names to arrays, in insertion order), \<^verbatim>\<open>_types\<close> and \<^verbatim>\<open>_length\<close>; a name of
  the model cannot start with an underscore, so they are \<open>u_data\<close>, \<open>u_types\<close> and
  \<open>u_length\<close>.
\<close>

type_synonym addr = nat

record DataFrame =
  u_data :: addr
  u_types :: "(string \<times> string) list"
  u_length :: nat

datatype obj =
    Column column
  | Columns "(string \<times> addr) list"
  | Frame DataFrame
  | Plain

text \<open>
  The store is the list of its objects; the address of an object is its index. A new
  object goes behind the others. \<open>Plain\<close> is an object of any other kind.
\<close>

type_synonym heap = "obj list"

definition heap_get :: "heap \<Rightarrow> addr \<Rightarrow> obj option" where
  "heap_get h a = (if a < length h then Some (h ! a) else None)"

definition alloc :: "heap \<Rightarrow> obj \<Rightarrow> heap \<times> addr" where
  "alloc h ob = (h @ [ob], length h)"

definition get_frame :: "heap \<Rightarrow> addr \<Rightarrow> DataFrame option" where
  "get_frame h a = (case heap_get h a of Some (Frame fr) \<Rightarrow> Some fr | _ \<Rightarrow> None)"

text \<open>The entries of the object \<^verbatim>\<open>df._data\<close>.\<close>

definition frame_columns :: "heap \<Rightarrow> DataFrame \<Rightarrow> (string \<times> addr) list" where
  "frame_columns h fr =
     (case heap_get h (u_data fr) of Some (Columns es) \<Rightarrow> es | _ \<Rightarrow> [])"

definition array_at :: "heap \<Rightarrow> addr \<Rightarrow> column option" where
  "array_at h a = (case heap_get h a of Some (Column c) \<Rightarrow> Some c | _ \<Rightarrow> None)"

text \<open>\<^verbatim>\<open>df._data[name]\<close>: \<open>None\<close> is \<^verbatim>\<open>undefined\<close>.\<close>

definition get_column :: "heap \<Rightarrow> DataFrame \<Rightarrow> string \<Rightarrow> column option" where
  "get_column h fr name =
     (case map_of (frame_columns h fr) name of
        None \<Rightarrow> None
      | Some a \<Rightarrow> array_at h a)"

text \<open>\<^verbatim>\<open>obj[key] = array\<close> on the object at \<open>d\<close>: a new key goes last, an old one keeps its place.\<close>

definition set_key :: "heap \<Rightarrow> addr \<Rightarrow> string \<Rightarrow> addr \<Rightarrow> heap" where
  "set_key h d k a =
     (case heap_get h d of
        Some (Columns es) \<Rightarrow> h[d := Columns (AList.update k a es)]
      | _ \<Rightarrow> h)"

fun type_name :: "column option \<Rightarrow> string" where
  "type_name (Some (NumCol xs)) = ''number''"
| "type_name (Some (StrCol ss)) = ''string''"
| "type_name None = ''undefined''"

text \<open>
  Modelled from the spec: the constructor \<^verbatim>\<open>new DataFrame(columns)\<close> of \<^verbatim>\<open>DataFrame.js\<close>,
  which is not among the sources. The spec asks of the tabular collaborator the
  "retrieval of a named column as an ordered numeric or categorical sequence of known
  length; per-column declared semantic type; row count". The new frame keeps the object
  of columns it is given, declares a numeric array \<^verbatim>\<open>number\<close> and an array of strings
  \<^verbatim>\<open>string\<close>, and counts the rows of the first column. It writes to no array and to no
  object that existed before.
\<close>

definition new_DataFrame :: "heap \<Rightarrow> addr \<Rightarrow> heap \<times> addr" where
  "new_DataFrame h d =
     (let es = (case heap_get h d of Some (Columns es) \<Rightarrow> es | _ \<Rightarrow> [])
      in alloc h (Frame \<lparr> u_data = d,
                          u_types = map (\<lambda>(k, a). (k, type_name (array_at h a))) es,
                          u_length = (case es of [] \<Rightarrow> 0
                                      | (k, a) # _ \<Rightarrow>
                                          (case array_at h a of None \<Rightarrow> 0
                                           | Some c \<Rightarrow> column_length c)) \<rparr>))"

section \<open>The language runtime\<close>

text \<open>
  Two conversions of the language have no definition over the reals: the string of a
  number (\<^verbatim>\<open>Number::toString\<close>, used by \<^verbatim>\<open>Array.prototype.sort\<close> without a
  comparator and by template literals) and the number of a string (\<^verbatim>\<open>ToNumber\<close>,
  applied by \<^verbatim>\<open>*\<close> and \<^verbatim>\<open>-\<close>). The model takes them, with the loaded statistics
  library, as the runtime.
\<close>

record runtime =
  jstat :: jStat
  Number_toString :: "real \<Rightarrow> string"
  String_toNumber :: "string \<Rightarrow> jsnum"

fun toString :: "runtime \<Rightarrow> cell \<Rightarrow> string" where
  "toString rt (Num r) = Number_toString rt r"
| "toString rt (Str s) = s"

text \<open>\<^verbatim>\<open>[...new Set(xs)]\<close>: the distinct values, each at its first occurrence.\<close>

definition Set_of :: "'a list \<Rightarrow> 'a list" where
  "Set_of xs = fold (\<lambda>x acc. if x \<in> set acc then acc else acc @ [x]) xs []"

text \<open>
  \<^verbatim>\<open>xs.sort()\<close> without a comparator: a stable sort by the strings of the elements,
  compared code unit by code unit. The strings of the model are byte strings.
\<close>

definition js_sort :: "runtime \<Rightarrow> cell list \<Rightarrow> cell list" where
  "js_sort rt xs = sort_key (toString rt) xs"

section \<open>The analysis object\<close>

record AncovaAnalysis =
  this_df :: addr
  dependentVar :: string
  covariates :: "string list"
  groupVar :: string

text \<open>
  The arguments of the constructor: \<^verbatim>\<open>data\<close> is \<^verbatim>\<open>undefined\<close> or \<^verbatim>\<open>null\<close>, a primitive
  value, or a reference to an object; \<^verbatim>\<open>options.covariates\<close> is one name or an array of
  names.
\<close>

datatype jsvalue = Undefined | Primitive | Ref addr

datatype covariates_arg = One string | Many "string list"

record options =
  opt_dependentVar :: string
  opt_covariates :: covariates_arg
  opt_groupVar :: string

text \<open>
  \<^verbatim>\<open>_validateInputs\<close>: the dependent variable, then each covariate in turn (the
  \<^verbatim>\<open>forEach\<close>), then the group variable, which is only looked up.
\<close>

fun check_covariates :: "heap \<Rightarrow> DataFrame \<Rightarrow> string list \<Rightarrow> error + unit" where
  "check_covariates h fr [] = Inr ()"
| "check_covariates h fr (covar # rest) =
     (if get_column h fr covar = None then Inl (CovariateNotFound covar)
      else if map_of (u_types fr) covar \<noteq> Some ''number'' then Inl (CovariateNotNumeric covar)
      else check_covariates h fr rest)"

definition validateInputs :: "heap \<Rightarrow> AncovaAnalysis \<Rightarrow> error + unit" where
  "validateInputs h self =
     (case get_frame h (this_df self) of
        None \<Rightarrow> Inl TypeError
      | Some fr \<Rightarrow>
          if get_column h fr (dependentVar self) = None
          then Inl (DependentVarNotFound (dependentVar self))
          else if map_of (u_types fr) (dependentVar self) \<noteq> Some ''number''
          then Inl (DependentVarNotNumeric (dependentVar self))
          else (case check_covariates h fr (covariates self) of
                  Inl e \<Rightarrow> Inl e
                | Inr _ \<Rightarrow>
                    if get_column h fr (groupVar self) = None
                    then Inl (GroupVarNotFound (groupVar self))
                    else Inr ()))"

text \<open>
  The constructor. \<^verbatim>\<open>Object.keys(data)\<close> in its logging throws on \<^verbatim>\<open>undefined\<close> and
  \<^verbatim>\<open>null\<close>; the destructuring of \<^verbatim>\<open>options\<close> throws when there are none.
\<close>

definition new_AncovaAnalysis ::
  "heap \<Rightarrow> jsvalue \<Rightarrow> options option \<Rightarrow> error + AncovaAnalysis" where
  "new_AncovaAnalysis h data opts =
     (case data of
        Undefined \<Rightarrow> Inl TypeError
      | Primitive \<Rightarrow> Inl NotDataFrame
      | Ref a \<Rightarrow>
          if get_frame h a = None then Inl NotDataFrame
          else (case opts of
                  None \<Rightarrow> Inl TypeError
                | Some os \<Rightarrow>
                    let self = \<lparr> this_df = a,
                                 dependentVar = opt_dependentVar os,
                                 covariates = (case opt_covariates os of
                                                 Many cs \<Rightarrow> cs | One c \<Rightarrow> [c]),
                                 groupVar = opt_groupVar os \<rparr>
                    in (case validateInputs h self of
                          Inl e \<Rightarrow> Inl e
                        | Inr _ \<Rightarrow> Inr self)))"

section \<open>The categorical encoder\<close>

text \<open>The array \<^verbatim>\<open>vals.map((val) => (val === level ? 1 : 0))\<close>.\<close>

definition indicator :: "cell list \<Rightarrow> cell \<Rightarrow> real list" where
  "indicator vals level = map (\<lambda>val. if val = level then 1 else 0) vals"

definition dummyName :: "runtime \<Rightarrow> string \<Rightarrow> cell \<Rightarrow> string" where
  "dummyName rt g level = g @ ''_'' @ toString rt level"

text \<open>
  \<^verbatim>\<open>_encodeDummies\<close>. \<^verbatim>\<open>new Set(undefined)\<close> is the empty set, so a group column that
  is not there gives no levels. \<^verbatim>\<open>{ ...this.df._data }\<close> is a new object with the same
  arrays; each dummy column is a new array, stored in the new object only.
\<close>

definition encodeDummies ::
  "runtime \<Rightarrow> heap \<Rightarrow> AncovaAnalysis \<Rightarrow> (error + addr \<times> cell list) \<times> heap" where
  "encodeDummies rt h self =
     (case get_frame h (this_df self) of
        None \<Rightarrow> (Inl TypeError, h)
      | Some fr \<Rightarrow>
          let vals = (case get_column h fr (groupVar self) of
                         None \<Rightarrow> [] | Some c \<Rightarrow> cells c);
              lvls = js_sort rt (Set_of vals);
              (h1, dummyData) = alloc h (Columns (frame_columns h fr));
              h2 = fold (\<lambda>level h.
                     let (h', a) = alloc h (Column (NumCol (indicator vals level)))
                     in set_key h' dummyData (dummyName rt (groupVar self) level) a)
                   (drop 1 lvls) h1;
              (h3, encodedData) = new_DataFrame h2 dummyData
          in (Inr (encodedData, lvls), h3))"

section \<open>The design-matrix builder\<close>

record Design =
  design_X :: "jsnum list list"
  design_y :: "jsnum list"

text \<open>
  \<^verbatim>\<open>col[i]\<close> as a number. The entries of \<^verbatim>\<open>X\<close> and \<^verbatim>\<open>y\<close> are only ever operands of
  \<^verbatim>\<open>*\<close> and \<^verbatim>\<open>-\<close>, which convert them; the model converts at the copy.
\<close>

fun number_at :: "runtime \<Rightarrow> column \<Rightarrow> nat \<Rightarrow> jsnum" where
  "number_at rt (NumCol xs) i = (if i < length xs then Fin (xs ! i) else NaN)"
| "number_at rt (StrCol ss) i =
     (if i < length ss then String_toNumber rt (ss ! i) else NaN)"

text \<open>
  The \<^verbatim>\<open>forEach\<close> over the predictors, from index \<open>j\<close> on. \<^verbatim>\<open>df._data[pred][i]\<close> throws
  when the column is not there, at the first row; with no rows the loop body never runs.
\<close>

fun fill_predictors ::
  "runtime \<Rightarrow> heap \<Rightarrow> DataFrame \<Rightarrow> nat \<Rightarrow> string list \<Rightarrow> nat \<Rightarrow> jsnum list list
     \<Rightarrow> error + jsnum list list" where
  "fill_predictors rt h fr n [] j X = Inr X"
| "fill_predictors rt h fr n (pred # rest) j X =
     (case get_column h fr pred of
        None \<Rightarrow> if n = 0 then fill_predictors rt h fr n rest (j + 1) X else Inl TypeError
      | Some col \<Rightarrow>
          fill_predictors rt h fr n rest (j + 1)
            (fold (\<lambda>i X. X[i := (X ! i)[j + 1 := number_at rt col i]]) [0..<n] X))"

definition buildDesignMatrix ::
  "runtime \<Rightarrow> heap \<Rightarrow> AncovaAnalysis \<Rightarrow> addr \<Rightarrow> string list \<Rightarrow> error + Design" where
  "buildDesignMatrix rt h self dfa predictors =
     (case get_frame h dfa of
        None \<Rightarrow> Inl TypeError
      | Some fr \<Rightarrow>
          let n = u_length fr;
              p = length predictors + 1
          in (case fill_predictors rt h fr n predictors 0 (replicate n (replicate p (Fin 1))) of
                Inl e \<Rightarrow> Inl e
              | Inr X \<Rightarrow>
                  (case get_column h fr (dependentVar self) of
                     None \<Rightarrow> Inl TypeError
                   | Some col \<Rightarrow>
                       Inr \<lparr> design_X = X,
                             design_y = map (number_at rt col) [0..<column_length col] \<rparr>)))"

section \<open>The orchestrator\<close>

record AncovaResult =
  reducedModel :: FittedModel
  fullModel :: FittedModel
  partialF :: PartialF
  levels :: "cell list"

text \<open>
  \<^verbatim>\<open>analyze\<close>, once \<^verbatim>\<open>require("jstat@1.9.4")\<close> has resolved to the library of the
  runtime. The store it returns is the store after the call, whether the call returned
  or threw.
\<close>

definition analyze ::
  "runtime \<Rightarrow> heap \<Rightarrow> AncovaAnalysis \<Rightarrow> (error + AncovaResult) \<times> heap" where
  "analyze rt h self =
     (case encodeDummies rt h self of
        (Inl e, h') \<Rightarrow> (Inl e, h')
      | (Inr (encodedData, lvls), h') \<Rightarrow>
          let dummyCols = map (dummyName rt (groupVar self)) (drop 1 lvls)
          in (case buildDesignMatrix rt h' self encodedData (covariates self) of
                Inl e \<Rightarrow> (Inl e, h')
              | Inr reducedDesign \<Rightarrow>
             (case fitModel (design_X reducedDesign) (design_y reducedDesign) (jstat rt) of
                Inl e \<Rightarrow> (Inl e, h')
              | Inr reduced \<Rightarrow>
             (case buildDesignMatrix rt h' self encodedData (covariates self @ dummyCols) of
                Inl e \<Rightarrow> (Inl e, h')
              | Inr fullDesign \<Rightarrow>
             (case fitModel (design_X fullDesign) (design_y fullDesign) (jstat rt) of
                Inl e \<Rightarrow> (Inl e, h')
              | Inr full \<Rightarrow>
             (case partialFTest (rss reduced) (rss full) (df reduced) (df full)
                     (int (length dummyCols)) (jstat rt) of
                Inl e \<Rightarrow> (Inl e, h')
              | Inr pf \<Rightarrow>
                  (Inr \<lparr> reducedModel = reduced, fullModel = full, partialF = pf,
                         levels = lvls \<rparr>, h')))))))"

section \<open>An exact instance of the statistics library\<close>

text \<open>
  The determinant of a square matrix of reals, by expansion along the first row, and the
  inverse by cofactors. They say what an exact \<^verbatim>\<open>jStat.det\<close> and \<^verbatim>\<open>jStat.inv\<close> return
  on a matrix of finite numbers.
\<close>

definition del :: "nat \<Rightarrow> 'a list \<Rightarrow> 'a list" where
  "del i xs = take i xs @ drop (Suc i) xs"

function determinant :: "real list list \<Rightarrow> real" where
  "determinant [] = 1"
| "determinant (r # rs) =
     (\<Sum>i<length r. (- 1) ^ i * r ! i * determinant (map (del i) rs))"
  by pat_completeness auto
termination
  by (relation "measure length") auto

definition cofactor_inverse :: "real list list \<Rightarrow> real list list" where
  "cofactor_inverse M =
     map (\<lambda>i. map (\<lambda>j. (- 1) ^ (i + j) * determinant (map (del i) (del j M)) / determinant M)
       [0..<length M]) [0..<length M]"

fun is_Fin :: "jsnum \<Rightarrow> bool" where
  "is_Fin (Fin a) = True"
| "is_Fin _ = False"

fun the_Fin :: "jsnum \<Rightarrow> real" where
  "the_Fin (Fin a) = a"
| "the_Fin _ = 0"

definition numeric :: "jsnum list list \<Rightarrow> bool" where
  "numeric M = list_all (list_all is_Fin) M"

definition exact_det :: "jsnum list list \<Rightarrow> jsnum" where
  "exact_det M =
     (if numeric M then Fin (determinant (map (map the_Fin) M)) else NaN)"

definition exact_inv :: "jsnum list list \<Rightarrow> jsnum list list" where
  "exact_inv M =
     (if numeric M \<and> determinant (map (map the_Fin) M) \<noteq> 0
      then map (map Fin) (cofactor_inverse (map (map the_Fin) M))
      else map (map (\<lambda>x. NaN)) M)"

text \<open>
  The instance used in the closed examples. Its two distribution functions are left
  out (they return \<open>NaN\<close>): no statement depends on their values.
\<close>

definition jStat_exact :: jStat where
  "jStat_exact =
     \<lparr> det = exact_det, inv_mat = exact_inv,
       studentt_cdf = (\<lambda>t d. NaN), centralF_cdf = (\<lambda>f d1 d2. NaN) \<rparr>"

text \<open>
  A library that is not exact: its inverse has a negative entry on the diagonal, whatever
  the matrix. Rounding can do this to the inverse of an ill-conditioned matrix; no exact
  inverse of a Gram matrix has such an entry.
\<close>

definition jStat_inexact :: jStat where
  "jStat_inexact = jStat_exact \<lparr> inv_mat := (\<lambda>M. [[Fin (- 1), Fin 0], [Fin 0, Fin 1]]) \<rparr>"

text \<open>
  The runtime of the closed examples. Its \<^verbatim>\<open>Number::toString\<close> prints the decimal digits
  of an integer, as the language does; the examples print no other number and convert
  no string to a number.
\<close>

fun digits :: "nat \<Rightarrow> string" where
  "digits n = (if n < 10 then [''0123456789'' ! n] else digits (n div 10) @ [''0123456789'' ! (n mod 10)])"

definition integer_toString :: "real \<Rightarrow> string" where
  "integer_toString r = (if r < 0 then ''-'' @ digits (nat \<lfloor>- r\<rfloor>) else digits (nat \<lfloor>r\<rfloor>))"

definition runtime_exact :: runtime where
  "runtime_exact =
     \<lparr> jstat = jStat_exact, Number_toString = integer_toString,
       String_toNumber = (\<lambda>s. NaN) \<rparr>"

section \<open>Notions for the statements\<close>

text \<open>\<^verbatim>\<open>data instanceof DataFrame\<close>\<close>

definition is_DataFrame :: "heap \<Rightarrow> jsvalue \<Rightarrow> bool" where
  "is_DataFrame h data = (case data of Ref a \<Rightarrow> get_frame h a \<noteq> None | _ \<Rightarrow> False)"

text \<open>
  The entries of the object \<^verbatim>\<open>dummyData\<close> after the loop of \<^verbatim>\<open>_encodeDummies\<close> over the
  levels \<open>ls\<close>, when the arrays of the dummy columns are allocated from address \<open>k\<close> on.
\<close>

definition dummy_entries ::
  "runtime \<Rightarrow> string \<Rightarrow> nat \<Rightarrow> cell list \<Rightarrow> (string \<times> addr) list \<Rightarrow> (string \<times> addr) list" where
  "dummy_entries rt g k ls es =
     fold (\<lambda>(a, l) es. AList.update (dummyName rt g l) a es) (enumerate k ls) es"

text \<open>\<^verbatim>\<open>df._data[name][i]\<close> as a number, and the values of a numeric column.\<close>

definition number_of :: "runtime \<Rightarrow> heap \<Rightarrow> DataFrame \<Rightarrow> string \<Rightarrow> nat \<Rightarrow> jsnum" where
  "number_of rt h fr name i =
     (case get_column h fr name of None \<Rightarrow> NaN | Some col \<Rightarrow> number_at rt col i)"

definition column_values :: "heap \<Rightarrow> DataFrame \<Rightarrow> string \<Rightarrow> real list" where
  "column_values h fr name =
     (case get_column h fr name of Some (NumCol xs) \<Rightarrow> xs | _ \<Rightarrow> [])"

text \<open>
  A frame of the store whose references are addresses of the store, as every reference of
  a running program is.
\<close>

definition valid_frame :: "heap \<Rightarrow> DataFrame \<Rightarrow> bool" where
  "valid_frame h fr =
     (u_data fr < length h \<and> (\<forall>(k, a) \<in> set (frame_columns h fr). a < length h))"

text \<open>
  For the proof that a Gram matrix with two equal columns has determinant zero: the
  exchange of two neighbouring entries of a row, one entry of \<^verbatim>\<open>XtX\<close> after \<open>n\<close> rows of the
  outer loop, and the Gram matrix of a matrix of finite numbers, over the reals.
\<close>

definition swap_adj :: "nat \<Rightarrow> 'a list \<Rightarrow> 'a list" where
  "swap_adj j r = r[j := r ! Suc j, Suc j := r ! j]"



section \<open>Stores of the closed examples\<close>

text \<open>
  Four rows in two groups: \<^verbatim>\<open>group = [A, A, B, B]\<close>, \<^verbatim>\<open>age = [1, 2, 1, 2]\<close>,
  \<^verbatim>\<open>outcome = [1, 2, 3, 6]\<close>. The frame is the object at address 4.
\<close>

definition heap_example :: heap where
  "heap_example =
     [Column (StrCol [''A'', ''A'', ''B'', ''B'']),
      Column (NumCol [1, 2, 1, 2]),
      Column (NumCol [1, 2, 3, 6]),
      Columns [(''group'', 0), (''age'', 1), (''outcome'', 2)],
      Frame \<lparr> u_data = 3,
              u_types = [(''group'', ''string''), (''age'', ''number''), (''outcome'', ''number'')],
              u_length = 4 \<rparr>]"

definition options_example :: options where
  "options_example =
     \<lparr> opt_dependentVar = ''outcome'', opt_covariates = One ''age'', opt_groupVar = ''group'' \<rparr>"

definition self_example :: AncovaAnalysis where
  "self_example =
     \<lparr> this_df = 4, dependentVar = ''outcome'', covariates = [''age''], groupVar = ''group'' \<rparr>"

text \<open>An analysis object on the example store that names the covariate \<^verbatim>\<open>age\<close> twice.\<close>

definition self_duplicate :: AncovaAnalysis where
  "self_duplicate =
     \<lparr> this_df = 4, dependentVar = ''outcome'', covariates = [''age'', ''age''],
       groupVar = ''group'' \<rparr>"

text \<open>The store after \<^verbatim>\<open>_encodeDummies\<close> on it: the copy, one dummy column, the new frame.\<close>

definition heap_encoded :: heap where
  "heap_encoded = heap_example @
     [Columns [(''group'', 0), (''age'', 1), (''outcome'', 2), (''group_B'', 6)],
      Column (NumCol [0, 0, 1, 1]),
      Frame \<lparr> u_data = 5,
              u_types = [(''group'', ''string''), (''age'', ''number''), (''outcome'', ''number''),
                         (''group_B'', ''number'')],
              u_length = 4 \<rparr>]"


text \<open>Numeric group codes: \<^verbatim>\<open>group = [2, 10, 2, 10]\<close>.\<close>

definition heap_codes :: heap where
  "heap_codes =
     [Column (NumCol [2, 10, 2, 10]),
      Column (NumCol [1, 2, 1, 2]),
      Column (NumCol [1, 2, 3, 6]),
      Columns [(''group'', 0), (''age'', 1), (''outcome'', 2)],
      Frame \<lparr> u_data = 3,
              u_types = [(''group'', ''number''), (''age'', ''number''), (''outcome'', ''number'')],
              u_length = 4 \<rparr>]"


section \<open>Arithmetic of the language\<close>

lemma jsub_Fin [simp]: "jsub (Fin a) (Fin b) = Fin (a - b)"
  by (simp add: jsub_def)

lemma jsub_NaN [simp]: "jsub a NaN = NaN" "jsub NaN b = NaN"
  by (cases a; simp add: jsub_def) (simp add: jsub_def)

lemma jmul_NaN [simp]: "jmul a NaN = NaN"
  by (cases a) simp_all

lemma jdiv_NaN [simp]: "jdiv a NaN = NaN"
  by (cases a) simp_all

lemma jdiv_zero_not_Fin: "\<not> is_Fin (jdiv a (Fin 0))"
  by (cases a) (simp_all add: inf_of_def)


section \<open>The fitter: what it checks and what it returns\<close>


lemma fitModel_singular:
  "X \<noteq> [] \<Longrightarrow> singular J X \<Longrightarrow> fitModel X y J = Inl SingularMatrixError"
  by (cases X) (simp_all add: fitModel_def singular_def gram_def Let_def)

lemma fitModel_returns:
  assumes "X \<noteq> []" and "\<not> singular J X"
  shows "\<exists>m. fitModel X y J = Inr m
           \<and> df m = int (length X) - int (length (hd X))
           \<and> XtX_inv m = inv_mat J (gram X)
           \<and> s2 m = jdiv (rss m) (Fin (real_of_int (df m)))
           \<and> se m = map (\<lambda>(i, row). Math_sqrt (jmul (s2 m) (elt row i)))
                        (enumerate 0 (XtX_inv m))"
  using assms
  by (cases X) (simp_all add: fitModel_def singular_def gram_def Let_def)

subsection \<open>A square design: two rows, two columns\<close>

lemma gram_square:
  "gram [[Fin 1, Fin 0], [Fin 1, Fin 1]] = [[Fin 2, Fin 1], [Fin 1, Fin 1]]"
  unfolding gram_def by code_simp

lemma det_gram_square: "exact_det [[Fin 2, Fin 1], [Fin 1, Fin 1]] = Fin 1"
  by code_simp

lemma inv_gram_square:
  "exact_inv [[Fin 2, Fin 1], [Fin 1, Fin 1]] = [[Fin 1, Fin (- 1)], [Fin (- 1), Fin 2]]"
  by code_simp

lemma XtY_square:
  "XtY [[Fin 1, Fin 0], [Fin 1, Fin 1]] [Fin 1, Fin 2] (Suc (Suc 0)) (Suc (Suc 0))
     = [Fin 3, Fin 2]"
  by code_simp

lemma not_singular_square: "\<not> singular jStat_exact [[Fin 1, Fin 0], [Fin 1, Fin 1]]"
  by (simp add: singular_def gram_square jStat_exact_def det_gram_square)

lemma fitModel_square:
  "fitModel [[Fin 1, Fin 0], [Fin 1, Fin 1]] [Fin 1, Fin 2] jStat_exact =
     Inr \<lparr> beta = [Fin 1, Fin 1], se = [NaN, NaN],
           tStats = [NaN, NaN], pValues = [NaN, NaN],
           yhat = [Fin 1, Fin 2], residuals = [Fin 0, Fin 0], rss = Fin 0, df = 0,
           s2 = NaN, XtX_inv = [[Fin 1, Fin (- 1)], [Fin (- 1), Fin 2]] \<rparr>"
proof -
  have g: "XtX [[Fin 1, Fin 0], [Fin 1, Fin 1]] (Suc (Suc 0)) (Suc (Suc 0))
             = [[Fin 2, Fin 1], [Fin 1, Fin 1]]"
    using gram_square by (simp add: gram_def)
  show ?thesis
    by (simp add: fitModel_def g jStat_exact_def det_gram_square inv_gram_square XtY_square
        Let_def reduce_dot_def elt_def)
qed

text \<open>
  C2, as the spec states it: past the singularity check, a design with \<open>n - p \<le> 0\<close>
  makes the fitter fail with a DegreesOfFreedomError. The code has no such check. For
  \<^verbatim>\<open>X = [[1, 0], [1, 1]]\<close> and \<^verbatim>\<open>y = [1, 2]\<close> the determinant of the Gram matrix is 1,
  \<open>n - p = 0\<close>, and the fitter returns a model, with \<open>df = 0\<close> and the error variance
  \<open>0 / 0\<close>, which is \<^verbatim>\<open>NaN\<close>.
\<close>

theorem C2_counterexample:
  "\<not> singular jStat_exact [[Fin 1, Fin 0], [Fin 1, Fin 1]]
   \<and> int (length [[Fin 1, Fin 0], [Fin 1, Fin 1]]) - int (length [Fin 1, Fin 0 :: jsnum]) \<le> 0
   \<and> (case fitModel [[Fin 1, Fin 0], [Fin 1, Fin 1]] [Fin 1, Fin 2] jStat_exact of
        Inl e \<Rightarrow> False
      | Inr m \<Rightarrow> df m = 0 \<and> s2 m = NaN)"
  by (simp add: not_singular_square fitModel_square)

text \<open>
  C2, amended: the fitter makes no test of the degrees of freedom. For every design
  with at least one row that passes the singularity check it returns a model whose
  \<open>df\<close> is \<open>n - p\<close>, whatever the sign of \<open>n - p\<close>, and whose error variance is
  \<open>rss / df\<close> as the language divides (not a finite number when \<open>df = 0\<close>).
\<close>

theorem C2_no_degrees_of_freedom_check:
  assumes "X \<noteq> []" and "\<not> singular J X"
  shows "\<exists>m. fitModel X y J = Inr m
           \<and> df m = int (length X) - int (length (hd X))
           \<and> s2 m = jdiv (rss m) (Fin (real_of_int (df m)))
           \<and> (df m = 0 \<longrightarrow> \<not> is_Fin (s2 m))"
proof -
  obtain m where m: "fitModel X y J = Inr m"
      "df m = int (length X) - int (length (hd X))"
      "s2 m = jdiv (rss m) (Fin (real_of_int (df m)))"
    using fitModel_returns[OF assms, of y] by blast
  have "df m = 0 \<longrightarrow> \<not> is_Fin (s2 m)"
    using m(3) jdiv_zero_not_Fin[of "rss m"] by auto
  with m show ?thesis by blast
qed

theorem C2_witness:
  "[[Fin 1, Fin 0], [Fin 1, Fin 1]] \<noteq> []
   \<and> \<not> singular jStat_exact [[Fin 1, Fin 0], [Fin 1, Fin 1]]
   \<and> (\<exists>m. fitModel [[Fin 1, Fin 0], [Fin 1, Fin 1]] [Fin 1, Fin 2] jStat_exact = Inr m
          \<and> df m = 0 \<and> s2 m = NaN)"
  using C2_no_degrees_of_freedom_check
          [of "[[Fin 1, Fin 0], [Fin 1, Fin 1]]" jStat_exact "[Fin 1, Fin 2]"]
        not_singular_square
  by (simp add: fitModel_square)

subsection \<open>Three rows, two columns, and an inverse that is not exact\<close>

lemma gram_tall:
  "gram [[Fin 1, Fin 0], [Fin 1, Fin 1], [Fin 1, Fin 3]] = [[Fin 3, Fin 4], [Fin 4, Fin 10]]"
  unfolding gram_def by code_simp

lemma det_gram_tall: "exact_det [[Fin 3, Fin 4], [Fin 4, Fin 10]] = Fin 14"
  by code_simp

lemma XtY_tall:
  "XtY [[Fin 1, Fin 0], [Fin 1, Fin 1], [Fin 1, Fin 3]] [Fin 1, Fin 2, Fin 2]
     (Suc (Suc (Suc 0))) (Suc (Suc 0)) = [Fin 5, Fin 8]"
  by code_simp

lemma not_singular_tall:
  "\<not> singular jStat_inexact [[Fin 1, Fin 0], [Fin 1, Fin 1], [Fin 1, Fin 3]]"
  by (simp add: singular_def gram_tall jStat_inexact_def jStat_exact_def det_gram_tall)

lemma fitModel_tall:
  "fitModel [[Fin 1, Fin 0], [Fin 1, Fin 1], [Fin 1, Fin 3]] [Fin 1, Fin 2, Fin 2] jStat_inexact =
     Inr \<lparr> beta = [Fin (- 5), Fin 8], se = [NaN, Fin (sqrt 326)],
           tStats = [NaN, Fin (8 / sqrt 326)], pValues = [NaN, NaN],
           yhat = [Fin (- 5), Fin 3, Fin 19], residuals = [Fin 6, Fin (- 1), Fin (- 17)],
           rss = Fin 326, df = 1, s2 = Fin 326,
           XtX_inv = [[Fin (- 1), Fin 0], [Fin 0, Fin 1]] \<rparr>"
proof -
  have g: "XtX [[Fin 1, Fin 0], [Fin 1, Fin 1], [Fin 1, Fin 3]] (Suc (Suc (Suc 0))) (Suc (Suc 0))
             = [[Fin 3, Fin 4], [Fin 4, Fin 10]]"
    using gram_tall by (simp add: gram_def)
  show ?thesis
    by (simp add: fitModel_def g jStat_inexact_def jStat_exact_def det_gram_tall XtY_tall
        Let_def reduce_dot_def elt_def)
qed

text \<open>
  C7, as the spec states it: a non-positive diagonal entry of the inverse Gram matrix
  is reported as an error. The code has no such check. With the library whose inverse
  has \<open>-1\<close> on its diagonal, \<^verbatim>\<open>X = [[1, 0], [1, 1], [1, 3]]\<close> and \<^verbatim>\<open>y = [1, 2, 2]\<close>, the
  fitter returns a model: its first standard error is the square root of a negative
  number, \<^verbatim>\<open>NaN\<close>, and so is the first t-statistic.
\<close>

theorem C7_counterexample:
  "(case fitModel [[Fin 1, Fin 0], [Fin 1, Fin 1], [Fin 1, Fin 3]] [Fin 1, Fin 2, Fin 2]
          jStat_inexact of
      Inl e \<Rightarrow> False
    | Inr m \<Rightarrow> XtX_inv m ! 0 ! 0 = Fin (- 1) \<and> se m ! 0 = NaN \<and> tStats m ! 0 = NaN)"
  by (simp add: fitModel_tall)

text \<open>
  C7, amended: the fitter makes no test of the diagonal of the inverse Gram matrix. For
  every design with at least one row that passes the singularity check it returns a
  model; the inverse in it is the one the library returned, and the standard error of
  coefficient \<open>j\<close> is \<^verbatim>\<open>Math.sqrt(s2 * XtX_inv[j][j])\<close> whatever the sign of the entry, so
  \<^verbatim>\<open>NaN\<close> when the product is negative.
\<close>

theorem C7_no_diagonal_check:
  assumes "X \<noteq> []" and "\<not> singular J X"
  shows "\<exists>m. fitModel X y J = Inr m
           \<and> XtX_inv m = inv_mat J (gram X)
           \<and> se m = map (\<lambda>(j, row). Math_sqrt (jmul (s2 m) (elt row j)))
                        (enumerate 0 (XtX_inv m))"
  using fitModel_returns[OF assms, of y] by blast

theorem C7_witness:
  "[[Fin 1, Fin 0], [Fin 1, Fin 1], [Fin 1, Fin 3]] \<noteq> []
   \<and> \<not> singular jStat_inexact [[Fin 1, Fin 0], [Fin 1, Fin 1], [Fin 1, Fin 3]]
   \<and> (\<exists>m. fitModel [[Fin 1, Fin 0], [Fin 1, Fin 1], [Fin 1, Fin 3]] [Fin 1, Fin 2, Fin 2]
             jStat_inexact = Inr m
          \<and> XtX_inv m = [[Fin (- 1), Fin 0], [Fin 0, Fin 1]]
          \<and> se m = [NaN, Fin (sqrt 326)])"
  using C7_no_diagonal_check
          [of "[[Fin 1, Fin 0], [Fin 1, Fin 1], [Fin 1, Fin 3]]" jStat_inexact
              "[Fin 1, Fin 2, Fin 2]"]
        not_singular_tall
  by (simp add: fitModel_tall)

section \<open>The comparator\<close>

lemma partialFTest_returns:
  "partialFTest a b dr dfull q J =
     Inr \<lparr> fStatistic = jdiv (jdiv (jsub a b) (Fin (real_of_int q)))
                              (jdiv b (Fin (real_of_int dfull))),
           pValue = jsub (Fin 1)
                      (centralF_cdf J
                         (jdiv (jdiv (jsub a b) (Fin (real_of_int q)))
                               (jdiv b (Fin (real_of_int dfull))))
                         (Fin (real_of_int q)) (Fin (real_of_int dfull))) \<rparr>"
  by (simp add: partialFTest_def Let_def)




section \<open>The constructor and its validation\<close>

lemma new_not_frame:
  "\<not> is_DataFrame h data \<Longrightarrow> \<exists>e. new_AncovaAnalysis h data opts = Inl e"
  by (cases data) (auto simp: new_AncovaAnalysis_def is_DataFrame_def)

lemma new_Inr:
  assumes "new_AncovaAnalysis h data opts = Inr self"
  shows "is_DataFrame h data \<and> data = Ref (this_df self) \<and> validateInputs h self = Inr ()"
  using assms
  by (cases data)
     (auto simp: new_AncovaAnalysis_def is_DataFrame_def Let_def
           split: if_splits option.splits sum.splits)

lemma new_valid:
  assumes "get_frame h a \<noteq> None"
    and "validateInputs h \<lparr> this_df = a, dependentVar = opt_dependentVar os,
             covariates = (case opt_covariates os of Many cs \<Rightarrow> cs | One c \<Rightarrow> [c]),
             groupVar = opt_groupVar os \<rparr> = Inr ()"
  shows "new_AncovaAnalysis h (Ref a) (Some os) =
           Inr \<lparr> this_df = a, dependentVar = opt_dependentVar os,
                 covariates = (case opt_covariates os of Many cs \<Rightarrow> cs | One c \<Rightarrow> [c]),
                 groupVar = opt_groupVar os \<rparr>"
  using assms by (simp add: new_AncovaAnalysis_def Let_def)



text \<open>
  C10: when \<^verbatim>\<open>data\<close> is no \<^verbatim>\<open>DataFrame\<close> instance the constructor throws, so there is no
  object to start an analysis on; and when the constructor returns an object, \<^verbatim>\<open>data\<close> was
  a \<^verbatim>\<open>DataFrame\<close> instance and the validation of the inputs passed.
\<close>

theorem C10_constructor:
  "(\<not> is_DataFrame h data \<longrightarrow> (\<exists>e. new_AncovaAnalysis h data opts = Inl e))
   \<and> (new_AncovaAnalysis h data opts = Inr self \<longrightarrow>
        is_DataFrame h data \<and> data = Ref (this_df self) \<and> validateInputs h self = Inr ())"
  using new_not_frame[of h data opts] new_Inr[of h data opts self] by blast

lemma new_example:
  "new_AncovaAnalysis heap_example (Ref 4) (Some options_example) = Inr self_example"
  by code_simp

lemma not_frame_example: "\<not> is_DataFrame heap_example (Ref 3)" "\<not> is_DataFrame heap_example Primitive"
  by code_simp+

text \<open>
  C10, at the example store: the object at address 3 is the plain object of columns, no
  frame, and the constructor throws; the object at address 4 is the frame, validation
  passes and the constructor returns.
\<close>

theorem C10_witness:
  "\<not> is_DataFrame heap_example (Ref 3)
   \<and> (\<exists>e. new_AncovaAnalysis heap_example (Ref 3) (Some options_example) = Inl e)
   \<and> new_AncovaAnalysis heap_example (Ref 4) (Some options_example) = Inr self_example
   \<and> is_DataFrame heap_example (Ref 4) \<and> validateInputs heap_example self_example = Inr ()"
  using C10_constructor[of heap_example "Ref 3" "Some options_example" self_example]
        C10_constructor[of heap_example "Ref 4" "Some options_example" self_example]
        not_frame_example(1) new_example
  by (simp add: self_example_def)

section \<open>The encoder\<close>

lemma dummy_loop:
  "fold (\<lambda>level h.
           let (h', a) = alloc h (Column (NumCol (indicator vals level)))
           in set_key h' (length h0) (dummyName rt g level) a)
        ls (h0 @ [Columns es] @ arrs)
   = h0 @ [Columns (dummy_entries rt g (length h0 + 1 + length arrs) ls es)]
        @ arrs @ map (\<lambda>l. Column (NumCol (indicator vals l))) ls"
proof (induction ls arbitrary: es arrs)
  case Nil
  show ?case by (simp add: dummy_entries_def)
next
  case (Cons l ls)
  let ?F = "\<lambda>level h.
           let (h', a) = alloc h (Column (NumCol (indicator vals level)))
           in set_key h' (length h0) (dummyName rt g level) a"
  let ?es = "AList.update (dummyName rt g l) (length h0 + 1 + length arrs) es"
  let ?arrs = "arrs @ [Column (NumCol (indicator vals l))]"
  have step: "?F l (h0 @ [Columns es] @ arrs) = h0 @ [Columns ?es] @ ?arrs"
    by (simp add: alloc_def set_key_def heap_get_def nth_append list_update_append)
  have "fold ?F (l # ls) (h0 @ [Columns es] @ arrs) = fold ?F ls (?F l (h0 @ [Columns es] @ arrs))"
    by simp
  also have "\<dots> = fold ?F ls (h0 @ [Columns ?es] @ ?arrs)"
    by (simp only: step)
  also have "\<dots> = h0 @ [Columns (dummy_entries rt g (length h0 + 1 + length ?arrs) ls ?es)]
        @ ?arrs @ map (\<lambda>l. Column (NumCol (indicator vals l))) ls"
    by (rule Cons.IH)
  also have "\<dots> = h0 @ [Columns (dummy_entries rt g (length h0 + 1 + length arrs) (l # ls) es)]
        @ arrs @ map (\<lambda>l. Column (NumCol (indicator vals l))) (l # ls)"
    by (simp add: dummy_entries_def)
  finally show ?case .
qed

lemma dummy_entries_other:
  "nm \<notin> dummyName rt g ` set ls \<Longrightarrow> map_of (dummy_entries rt g k ls es) nm = map_of es nm"
  by (induction ls arbitrary: k es) (auto simp: dummy_entries_def update_conv')

lemma dummy_entries_lookup:
  "i < length ls \<Longrightarrow> distinct (map (dummyName rt g) ls)
   \<Longrightarrow> map_of (dummy_entries rt g k ls es) (dummyName rt g (ls ! i)) = Some (k + i)"
proof (induction ls arbitrary: k es i)
  case Nil
  then show ?case by simp
next
  case (Cons l ls)
  show ?case
  proof (cases i)
    case 0
    have "map_of (dummy_entries rt g (Suc k) ls (AList.update (dummyName rt g l) k es)) (dummyName rt g l)
          = map_of (AList.update (dummyName rt g l) k es) (dummyName rt g l)"
      using Cons.prems(2) by (intro dummy_entries_other) auto
    then show ?thesis using 0 by (simp add: dummy_entries_def update_conv')
  next
    case (Suc i')
    then show ?thesis
      using Cons.IH[of i' "Suc k" "AList.update (dummyName rt g l) k es"] Cons.prems
      by (simp add: dummy_entries_def)
  qed
qed

lemma new_DataFrame_alloc: "\<exists>F. u_data F = d \<and> new_DataFrame h d = (h @ [Frame F], length h)"
  by (simp add: new_DataFrame_def alloc_def Let_def)

lemma encodeDummies_closed:
  assumes "get_frame h (this_df self) = Some fr"
    and "vals = (case get_column h fr (groupVar self) of None \<Rightarrow> [] | Some c \<Rightarrow> cells c)"
    and "lvls = js_sort rt (Set_of vals)"
  shows "\<exists>F. u_data F = length h \<and> encodeDummies rt h self =
     (Inr (length h + 1 + length (drop 1 lvls), lvls),
      h @ [Columns (dummy_entries rt (groupVar self) (length h + 1) (drop 1 lvls)
                               (frame_columns h fr))]
        @ map (\<lambda>l. Column (NumCol (indicator vals l))) (drop 1 lvls) @ [Frame F])"
proof -
  let ?h2 = "h @ [Columns (dummy_entries rt (groupVar self) (length h + 1) (drop 1 lvls)
                               (frame_columns h fr))]
                 @ map (\<lambda>l. Column (NumCol (indicator vals l))) (drop 1 lvls)"
  have loop: "fold (\<lambda>level h'.
           let (h'', a) = alloc h' (Column (NumCol (indicator vals level)))
           in set_key h'' (length h) (dummyName rt (groupVar self) level) a)
        (drop 1 lvls) (h @ [Columns (frame_columns h fr)]) = ?h2"
    using dummy_loop[of vals h rt "groupVar self" "drop 1 lvls" "frame_columns h fr" "[]"]
    by simp
  obtain F where F: "u_data F = length h" "new_DataFrame ?h2 (length h) = (?h2 @ [Frame F], length ?h2)"
    using new_DataFrame_alloc[of "length h" ?h2] by blast
  have "encodeDummies rt h self = (Inr (length ?h2, lvls), ?h2 @ [Frame F])"
    using assms loop F(2)
    by (simp add: encodeDummies_def alloc_def Let_def del: drop_Suc_Cons)
  then show ?thesis using F(1) by (intro exI[of _ F]) simp
qed

lemma encodeDummies_no_frame:
  "get_frame h (this_df self) = None \<Longrightarrow> encodeDummies rt h self = (Inl TypeError, h)"
  by (simp add: encodeDummies_def)

lemma encodeDummies_extends: "\<exists>ext. snd (encodeDummies rt h self) = h @ ext"
proof (cases "get_frame h (this_df self)")
  case None
  then show ?thesis by (simp add: encodeDummies_no_frame)
next
  case (Some fr)
  from encodeDummies_closed[OF Some refl refl, of rt]
  obtain F where "snd (encodeDummies rt h self) = h @ ([Columns (dummy_entries rt (groupVar self) (length h + 1) (drop 1 (js_sort rt (Set_of (case get_column h fr (groupVar self) of None \<Rightarrow> [] | Some c \<Rightarrow> cells c))))
                               (frame_columns h fr))]
        @ map (\<lambda>l. Column (NumCol (indicator (case get_column h fr (groupVar self) of None \<Rightarrow> [] | Some c \<Rightarrow> cells c) l))) (drop 1 (js_sort rt (Set_of (case get_column h fr (groupVar self) of None \<Rightarrow> [] | Some c \<Rightarrow> cells c)))) @ [Frame F])"
    by auto
  then show ?thesis by blast
qed

lemma analyze_heap: "snd (analyze rt h self) = snd (encodeDummies rt h self)"
  by (simp add: analyze_def Let_def split: prod.splits sum.splits)

lemma Set_of_fold:
  "set (fold (\<lambda>x acc. if x \<in> set acc then acc else acc @ [x]) xs acc) = set acc \<union> set xs
   \<and> (distinct acc \<longrightarrow> distinct (fold (\<lambda>x acc. if x \<in> set acc then acc else acc @ [x]) xs acc))"
  by (induction xs arbitrary: acc) auto

lemma set_Set_of [simp]: "set (Set_of xs) = set xs"
  using Set_of_fold[of xs "[]"] by (simp add: Set_of_def)

lemma distinct_Set_of [simp]: "distinct (Set_of xs)"
  using Set_of_fold[of xs "[]"] by (simp add: Set_of_def)

lemma js_sort_props:
  "set (js_sort rt xs) = set xs" "distinct (js_sort rt xs) = distinct xs"
  "sorted (map (toString rt) (js_sort rt xs))" "length (js_sort rt xs) = length xs"
  by (simp_all add: js_sort_def)

lemma sorted_first_least:
  "sorted (map f xs) \<Longrightarrow> x \<in> set xs \<Longrightarrow> f (xs ! 0) \<le> f x"
  by (cases xs) auto

lemma distinct_dummyNames:
  "distinct (map (toString rt) ls) \<Longrightarrow> distinct (map (dummyName rt g) ls)"
  by (induction ls) (auto simp: dummyName_def)

lemma encoded_lookup:
  assumes "i < length ls" and "distinct (map (dummyName rt g) ls)" and "u_data F = length h"
  shows "get_column (h @ [Columns (dummy_entries rt g (length h + 1) ls es)]
                       @ map (\<lambda>l. Column (NumCol (indicator vals l))) ls @ [Frame F])
                    F (dummyName rt g (ls ! i))
         = Some (NumCol (indicator vals (ls ! i)))"
  using assms dummy_entries_lookup[OF assms(1,2), of "length h + 1" es]
  by (simp add: get_column_def frame_columns_def heap_get_def array_at_def nth_append)

lemma frame_example:
  "get_frame heap_example (this_df self_example) = Some \<lparr> u_data = 3,
              u_types = [(''group'', ''string''), (''age'', ''number''), (''outcome'', ''number'')],
              u_length = 4 \<rparr>"
  by code_simp

lemma group_example:
  "get_column heap_example \<lparr> u_data = 3,
              u_types = [(''group'', ''string''), (''age'', ''number''), (''outcome'', ''number'')],
              u_length = 4 \<rparr> (groupVar self_example) = Some (StrCol [''A'', ''A'', ''B'', ''B''])"
  by code_simp

lemma levels_example:
  "js_sort runtime_exact (Set_of (cells (StrCol [''A'', ''A'', ''B'', ''B'']))) = [Str ''A'', Str ''B'']"
  by code_simp

text \<open>
  C5, as the spec states it: the levels are the distinct values in the natural order of
  their type, numeric order for numbers, and the reference level is the first in that
  order. \<^verbatim>\<open>sort()\<close> without a comparator orders by the strings of the values: for the
  group column \<^verbatim>\<open>[2, 10, 2, 10]\<close> the levels are \<^verbatim>\<open>[10, 2]\<close> and the reference level is
  10, the larger number.
\<close>

theorem C5_counterexample:
  "get_column heap_codes \<lparr> u_data = 3,
              u_types = [(''group'', ''number''), (''age'', ''number''), (''outcome'', ''number'')],
              u_length = 4 \<rparr> ''group'' = Some (NumCol [2, 10, 2, 10])
   \<and> fst (encodeDummies runtime_exact heap_codes self_example) = Inr (7, [Num 10, Num 2])
   \<and> (2 :: real) < 10"
proof -
  have "get_column heap_codes \<lparr> u_data = 3,
              u_types = [(''group'', ''number''), (''age'', ''number''), (''outcome'', ''number'')],
              u_length = 4 \<rparr> ''group'' = Some (NumCol [2, 10, 2, 10])"
    by code_simp
  moreover have "fst (encodeDummies runtime_exact heap_codes self_example) = Inr (7, [Num 10, Num 2])"
    by code_simp
  ultimately show ?thesis by simp
qed

text \<open>
  C5, amended: for every group column the encoder returns the distinct values sorted
  ascending by their strings, as \<^verbatim>\<open>sort()\<close> without a comparator orders them (strings in
  their own order, numbers in the order of their decimal strings); the reference level
  is the first in that order; and for each other level, the levels having distinct
  strings, the encoded frame holds under the name \<^verbatim>\<open>groupVar_level\<close> an indicator array
  as long as the group column, 1 exactly at the rows equal to that level and 0 elsewhere.
\<close>

theorem C5_encoder:
  assumes "get_frame h (this_df self) = Some fr"
    and "get_column h fr (groupVar self) = Some c"
  shows "\<exists>enc lv h' fr'.
           encodeDummies rt h self = (Inr (enc, lv), h')
         \<and> lv = js_sort rt (Set_of (cells c))
         \<and> set lv = set (cells c) \<and> distinct lv
         \<and> sorted (map (toString rt) lv)
         \<and> (\<forall>l \<in> set lv. toString rt (lv ! 0) \<le> toString rt l)
         \<and> get_frame h' enc = Some fr'
         \<and> (distinct (map (toString rt) lv) \<longrightarrow>
              (\<forall>l \<in> set (drop 1 lv).
                 get_column h' fr' (dummyName rt (groupVar self) l)
                   = Some (NumCol (indicator (cells c) l))))
         \<and> (\<forall>l. length (indicator (cells c) l) = length (cells c)
                \<and> (\<forall>i < length (cells c).
                      indicator (cells c) l ! i = (if cells c ! i = l then 1 else 0)))"
proof -
  let ?lv = "js_sort rt (Set_of (cells c))"
  let ?ls = "drop 1 ?lv"
  let ?g = "groupVar self"
  have vals: "cells c = (case get_column h fr ?g of None \<Rightarrow> [] | Some c \<Rightarrow> cells c)"
    using assms(2) by simp
  obtain F where F: "u_data F = length h"
    and enc: "encodeDummies rt h self =
     (Inr (length h + 1 + length ?ls, ?lv),
      h @ [Columns (dummy_entries rt ?g (length h + 1) ?ls (frame_columns h fr))]
        @ map (\<lambda>l. Column (NumCol (indicator (cells c) l))) ?ls @ [Frame F])"
    using encodeDummies_closed[OF assms(1) vals refl, of rt] by blast
  let ?h' = "h @ [Columns (dummy_entries rt ?g (length h + 1) ?ls (frame_columns h fr))]
        @ map (\<lambda>l. Column (NumCol (indicator (cells c) l))) ?ls @ [Frame F]"
  have frame: "get_frame ?h' (length h + 1 + length ?ls) = Some F"
    by (simp add: get_frame_def heap_get_def nth_append)
  have cols: "get_column ?h' F (dummyName rt ?g l) = Some (NumCol (indicator (cells c) l))"
    if d: "distinct (map (toString rt) ?lv)" and l: "l \<in> set ?ls" for l
  proof -
    obtain i where i: "i < length ?ls" "?ls ! i = l"
      using l by (meson in_set_conv_nth)
    have "distinct (map (toString rt) ?ls)"
      using d by (simp add: distinct_drop drop_map[symmetric] del: drop_Suc_Cons)
    then have "distinct (map (dummyName rt ?g) ?ls)" by (rule distinct_dummyNames)
    from encoded_lookup[OF i(1) this F, of "frame_columns h fr" "cells c"] i(2)
    show ?thesis by simp
  qed
  have least: "\<forall>l \<in> set ?lv. toString rt (?lv ! 0) \<le> toString rt l"
    using sorted_first_least[of "toString rt" ?lv] js_sort_props(3)[of rt "Set_of (cells c)"]
    by blast
  have ind: "\<forall>l. length (indicator (cells c) l) = length (cells c)
                \<and> (\<forall>i < length (cells c).
                      indicator (cells c) l ! i = (if cells c ! i = l then 1 else 0))"
    by (simp add: indicator_def)
  show ?thesis
    apply (rule exI[of _ "length h + 1 + length ?ls"])
    apply (rule exI[of _ ?lv])
    apply (rule exI[of _ ?h'])
    apply (rule exI[of _ F])
    using enc frame cols least ind
    by (simp add: js_sort_props del: drop_Suc_Cons)
qed

text \<open>
  C5, at the example store: the levels of \<^verbatim>\<open>[A, A, B, B]\<close> are \<^verbatim>\<open>[A, B]\<close> and the encoded
  frame holds \<^verbatim>\<open>group_B = [0, 0, 1, 1]\<close>.
\<close>

theorem C5_witness:
  "\<exists>enc h' fr'.
      encodeDummies runtime_exact heap_example self_example = (Inr (enc, [Str ''A'', Str ''B'']), h')
    \<and> get_frame h' enc = Some fr'
    \<and> get_column h' fr' ''group_B'' = Some (NumCol [0, 0, 1, 1])"
proof -
  obtain enc lv h' fr' where r:
      "encodeDummies runtime_exact heap_example self_example = (Inr (enc, lv), h')"
      "lv = js_sort runtime_exact (Set_of (cells (StrCol [''A'', ''A'', ''B'', ''B''])))"
      "get_frame h' enc = Some fr'"
      "distinct (map (toString runtime_exact) lv) \<longrightarrow>
              (\<forall>l \<in> set (drop 1 lv).
                 get_column h' fr' (dummyName runtime_exact (groupVar self_example) l)
                   = Some (NumCol (indicator (cells (StrCol [''A'', ''A'', ''B'', ''B''])) l)))"
    using C5_encoder[OF frame_example group_example, of runtime_exact] by blast
  have lv: "lv = [Str ''A'', Str ''B'']" using r(2) levels_example by simp
  have "get_column h' fr' (dummyName runtime_exact (groupVar self_example) (Str ''B''))
          = Some (NumCol (indicator (cells (StrCol [''A'', ''A'', ''B'', ''B''])) (Str ''B'')))"
    using r(4) by (simp add: lv)
  then have "get_column h' fr' ''group_B'' = Some (NumCol [0, 0, 1, 1])"
    by (simp add: dummyName_def self_example_def indicator_def)
  then show ?thesis using r(1,3) lv by blast
qed

section \<open>The builder\<close>

lemma fold_update_rows:
  "m \<le> length X \<Longrightarrow>
     fold (\<lambda>i X. X[i := g i (X ! i)]) [0..<m] X = map (\<lambda>i. g i (X ! i)) [0..<m] @ drop m X"
proof (induction m)
  case 0
  show ?case by simp
next
  case (Suc m)
  then have m: "m < length X" by simp
  have "fold (\<lambda>i X. X[i := g i (X ! i)]) [0..<Suc m] X
        = (map (\<lambda>i. g i (X ! i)) [0..<m] @ drop m X)
            [m := g m ((map (\<lambda>i. g i (X ! i)) [0..<m] @ drop m X) ! m)]"
    using Suc by simp
  also have "\<dots> = map (\<lambda>i. g i (X ! i)) [0..<m] @ (drop m X)[0 := g m (X ! m)]"
    using m by (simp add: list_update_append nth_append)
  also have "(drop m X)[0 := g m (X ! m)] = g m (X ! m) # drop (Suc m) X"
    using m by (simp add: Cons_nth_drop_Suc[symmetric])
  finally show ?case by simp
qed

lemma fill_predictors_closed:
  assumes "\<forall>pred \<in> set preds. get_column h fr pred \<noteq> None"
    and "length X = n" and "\<forall>row \<in> set X. j + length preds < length row"
  shows "fill_predictors rt h fr n preds j X =
     Inr (map (\<lambda>i. take (j + 1) (X ! i) @ map (\<lambda>pred. number_of rt h fr pred i) preds
                    @ drop (j + 1 + length preds) (X ! i)) [0..<n])"
  using assms
proof (induction preds arbitrary: j X)
  case Nil
  have "map ((!) X) [0..<length X] = X" by (rule map_nth)
  then show ?case using Nil by (simp add: take_Suc_conv_app_nth)
next
  case (Cons pred rest)
  obtain col where col: "get_column h fr pred = Some col"
    using Cons.prems(1) by auto
  let ?X = "map (\<lambda>i. (X ! i)[j + 1 := number_at rt col i]) [0..<n]"
  have X': "fold (\<lambda>i X. X[i := (X ! i)[j + 1 := number_at rt col i]]) [0..<n] X = ?X"
    using fold_update_rows[of n X "\<lambda>i row. row[j + 1 := number_at rt col i]"] Cons.prems(2)
    by simp
  have len: "\<forall>row \<in> set ?X. (j + 1) + length rest < length row"
    using Cons.prems(2,3) by auto
  have "fill_predictors rt h fr n (pred # rest) j X = fill_predictors rt h fr n rest (j + 1) ?X"
    using col X' by simp
  also have "\<dots> = Inr (map (\<lambda>i. take (j + 1 + 1) (?X ! i)
                    @ map (\<lambda>pred. number_of rt h fr pred i) rest
                    @ drop (j + 1 + 1 + length rest) (?X ! i)) [0..<n])"
    using Cons.IH[of ?X "j + 1"] Cons.prems(1) len by simp
  also have "\<dots> = Inr (map (\<lambda>i. take (j + 1) (X ! i)
                    @ map (\<lambda>pred. number_of rt h fr pred i) (pred # rest)
                    @ drop (j + 1 + length (pred # rest)) (X ! i)) [0..<n])"
  proof -
    have "take (j + 1 + 1) (?X ! i) = take (j + 1) (X ! i) @ [number_of rt h fr pred i]
          \<and> drop (j + 1 + 1 + length rest) (?X ! i) = drop (j + 1 + length (pred # rest)) (X ! i)"
      if "i < n" for i
    proof -
      have "X ! i \<in> set X" using Cons.prems(2) that by simp
      then have "j + 1 < length (X ! i)"
        using Cons.prems(3) by fastforce
      then show ?thesis
        using that col by (simp add: number_of_def take_Suc_conv_app_nth)
    qed
    then show ?thesis by simp
  qed
  finally show ?case .
qed

lemma buildDesignMatrix_closed:
  assumes "get_frame h dfa = Some fr"
    and "\<forall>pred \<in> set preds. get_column h fr pred \<noteq> None"
    and "get_column h fr (dependentVar self) = Some col"
  shows "buildDesignMatrix rt h self dfa preds =
     Inr \<lparr> design_X = map (\<lambda>i. Fin 1 # map (\<lambda>pred. number_of rt h fr pred i) preds)
                           [0..<u_length fr],
           design_y = map (number_at rt col) [0..<column_length col] \<rparr>"
proof -
  let ?n = "u_length fr"
  let ?X0 = "replicate ?n (replicate (length preds + 1) (Fin 1 :: jsnum))"
  have "fill_predictors rt h fr ?n preds 0 ?X0 =
     Inr (map (\<lambda>i. take (0 + 1) (?X0 ! i) @ map (\<lambda>pred. number_of rt h fr pred i) preds
                    @ drop (0 + 1 + length preds) (?X0 ! i)) [0..<?n])"
    using assms(2) by (intro fill_predictors_closed) auto
  also have "\<dots> = Inr (map (\<lambda>i. Fin 1 # map (\<lambda>pred. number_of rt h fr pred i) preds) [0..<?n])"
    by simp
  finally show ?thesis
    using assms(1,3) by (simp add: buildDesignMatrix_def Let_def)
qed

text \<open>
  C6: for a frame of \<open>n\<close> rows, \<open>k\<close> predictor names that each name a numeric column of
  length \<open>n\<close>, and a numeric outcome column of length \<open>n\<close>, the builder returns a matrix of
  \<open>n\<close> rows and \<open>k + 1\<close> columns whose column 0 is 1, whose column \<open>j + 1\<close> holds the
  values of predictor \<open>j\<close>, and the outcome vector of length \<open>n\<close>; row \<open>i\<close> of both holds
  the values of row \<open>i\<close> of the source.
\<close>

theorem C6_design_matrix:
  assumes "get_frame h dfa = Some fr"
    and "\<forall>pred \<in> set predictors.
           \<exists>xs. get_column h fr pred = Some (NumCol xs) \<and> length xs = u_length fr"
    and "get_column h fr (dependentVar self) = Some (NumCol ys)"
    and "length ys = u_length fr"
  shows "\<exists>X y. buildDesignMatrix rt h self dfa predictors = Inr \<lparr> design_X = X, design_y = y \<rparr>
           \<and> length X = u_length fr
           \<and> (\<forall>i < u_length fr.
                 length (X ! i) = length predictors + 1
               \<and> X ! i ! 0 = Fin 1
               \<and> (\<forall>j < length predictors.
                     X ! i ! (j + 1) = Fin (column_values h fr (predictors ! j) ! i)))
           \<and> length y = u_length fr
           \<and> (\<forall>i < u_length fr. y ! i = Fin (ys ! i))"
proof -
  let ?X = "map (\<lambda>i. Fin 1 # map (\<lambda>pred. number_of rt h fr pred i) predictors) [0..<u_length fr]"
  let ?y = "map (number_at rt (NumCol ys)) [0..<column_length (NumCol ys)]"
  have present: "\<forall>pred \<in> set predictors. get_column h fr pred \<noteq> None"
    using assms(2) by auto
  have eq: "buildDesignMatrix rt h self dfa predictors = Inr \<lparr> design_X = ?X, design_y = ?y \<rparr>"
    using buildDesignMatrix_closed[OF assms(1) present assms(3)] .
  have entry: "number_of rt h fr (predictors ! j) i = Fin (column_values h fr (predictors ! j) ! i)"
    if j: "j < length predictors" and i: "i < u_length fr" for i j
  proof -
    have "predictors ! j \<in> set predictors" using j by simp
    then obtain xs where "get_column h fr (predictors ! j) = Some (NumCol xs)" "length xs = u_length fr"
      using assms(2) by blast
    then show ?thesis using i by (simp add: number_of_def column_values_def)
  qed
  have "\<forall>i < u_length fr.
                 length (?X ! i) = length predictors + 1
               \<and> ?X ! i ! 0 = Fin 1
               \<and> (\<forall>j < length predictors.
                     ?X ! i ! (j + 1) = Fin (column_values h fr (predictors ! j) ! i))"
    using entry by simp
  moreover have "length ?X = u_length fr" by simp
  moreover have "length ?y = u_length fr" using assms(4) by simp
  moreover have "\<forall>i < u_length fr. ?y ! i = Fin (ys ! i)" using assms(4) by simp
  ultimately show ?thesis using eq by blast
qed

lemma get_frame_encoded: "get_frame heap_encoded 7 = Some \<lparr> u_data = 5,
              u_types = [(''group'', ''string''), (''age'', ''number''), (''outcome'', ''number''),
                         (''group_B'', ''number'')],
              u_length = 4 \<rparr>"
  by code_simp

lemma columns_encoded:
  "get_column heap_encoded \<lparr> u_data = 5,
              u_types = [(''group'', ''string''), (''age'', ''number''), (''outcome'', ''number''),
                         (''group_B'', ''number'')],
              u_length = 4 \<rparr> ''age'' = Some (NumCol [1, 2, 1, 2])"
  "get_column heap_encoded \<lparr> u_data = 5,
              u_types = [(''group'', ''string''), (''age'', ''number''), (''outcome'', ''number''),
                         (''group_B'', ''number'')],
              u_length = 4 \<rparr> ''group_B'' = Some (NumCol [0, 0, 1, 1])"
  "get_column heap_encoded \<lparr> u_data = 5,
              u_types = [(''group'', ''string''), (''age'', ''number''), (''outcome'', ''number''),
                         (''group_B'', ''number'')],
              u_length = 4 \<rparr> ''outcome'' = Some (NumCol [1, 2, 3, 6])"
  by code_simp+

lemma preds_encoded:
  "\<forall>pred \<in> set [''age'', ''group_B''].
      \<exists>xs. get_column heap_encoded \<lparr> u_data = 5,
              u_types = [(''group'', ''string''), (''age'', ''number''), (''outcome'', ''number''),
                         (''group_B'', ''number'')],
              u_length = 4 \<rparr> pred = Some (NumCol xs) \<and> length xs = 4"
  by (simp add: columns_encoded)

text \<open>
  C6, at the encoded example: the predictors \<^verbatim>\<open>age\<close> and \<^verbatim>\<open>group_B\<close> give a matrix of 4 rows
  and 3 columns; its row 2 is \<^verbatim>\<open>[1, 1, 1]\<close> and the last outcome is 6.
\<close>

theorem C6_witness:
  "\<exists>X y. buildDesignMatrix runtime_exact heap_encoded self_example 7 [''age'', ''group_B'']
            = Inr \<lparr> design_X = X, design_y = y \<rparr>
         \<and> length X = 4 \<and> length (X ! 2) = 3
         \<and> X ! 2 ! 0 = Fin 1 \<and> X ! 2 ! 1 = Fin 1 \<and> X ! 2 ! 2 = Fin 1
         \<and> length y = 4 \<and> y ! 3 = Fin 6"
proof -
  have dep: "get_column heap_encoded \<lparr> u_data = 5,
              u_types = [(''group'', ''string''), (''age'', ''number''), (''outcome'', ''number''),
                         (''group_B'', ''number'')],
              u_length = 4 \<rparr> (dependentVar self_example) = Some (NumCol [1, 2, 3, 6])"
    by (simp add: self_example_def columns_encoded)
  obtain X y where r:
      "buildDesignMatrix runtime_exact heap_encoded self_example 7 [''age'', ''group_B'']
         = Inr \<lparr> design_X = X, design_y = y \<rparr>"
      "length X = 4"
      "\<forall>i < 4. length (X ! i) = 3 \<and> X ! i ! 0 = Fin 1
           \<and> (\<forall>j < 2. X ! i ! (j + 1) = Fin (column_values heap_encoded \<lparr> u_data = 5,
              u_types = [(''group'', ''string''), (''age'', ''number''), (''outcome'', ''number''),
                         (''group_B'', ''number'')],
              u_length = 4 \<rparr> ([''age'', ''group_B''] ! j) ! i))"
      "length y = 4" "\<forall>i < 4. y ! i = Fin ([1, 2, 3, 6] ! i)"
    using C6_design_matrix[OF get_frame_encoded _ dep, of "[''age'', ''group_B'']" runtime_exact]
          preds_encoded
    by auto
  have "X ! 2 ! (0 + 1) = Fin 1" "X ! 2 ! (1 + 1) = Fin 1"
    using r(3) by (simp_all add: column_values_def columns_encoded)
  moreover have "length (X ! 2) = 3" "X ! 2 ! 0 = Fin 1" using r(3) by simp_all
  moreover have "y ! 3 = Fin 6" using r(5) by simp
  ultimately show ?thesis using r(1,2,4) by (auto simp: numeral_2_eq_2)
qed

section \<open>The orchestrator\<close>

lemma analyze_Inr:
  assumes "analyze rt h self = (Inr r, h')"
  shows "partialFTest (rss (reducedModel r)) (rss (fullModel r)) (df (reducedModel r))
           (df (fullModel r)) (int (length (drop 1 (levels r)))) (jstat rt) = Inr (partialF r)"
  using assms
  by (auto simp: analyze_def Let_def split: prod.splits sum.splits)

subsection \<open>The analysis of the example store\<close>

lemma encode_example:
  "encodeDummies runtime_exact heap_example self_example = (Inr (7, [Str ''A'', Str ''B'']), heap_encoded)"
  by code_simp

lemma build_reduced:
  "buildDesignMatrix runtime_exact heap_encoded self_example 7 [''age''] =
     Inr \<lparr> design_X = [[Fin 1, Fin 1], [Fin 1, Fin 2], [Fin 1, Fin 1], [Fin 1, Fin 2]],
           design_y = [Fin 1, Fin 2, Fin 3, Fin 6] \<rparr>"
  by code_simp

lemma build_full:
  "buildDesignMatrix runtime_exact heap_encoded self_example 7 [''age'', ''group_B''] =
     Inr \<lparr> design_X = [[Fin 1, Fin 1, Fin 0], [Fin 1, Fin 2, Fin 0],
                       [Fin 1, Fin 1, Fin 1], [Fin 1, Fin 2, Fin 1]],
           design_y = [Fin 1, Fin 2, Fin 3, Fin 6] \<rparr>"
  by code_simp

lemma gram_reduced:
  "XtX [[Fin 1, Fin 1], [Fin 1, Fin 2], [Fin 1, Fin 1], [Fin 1, Fin 2]]
     (Suc (Suc (Suc (Suc 0)))) (Suc (Suc 0)) = [[Fin 4, Fin 6], [Fin 6, Fin 10]]"
  by code_simp

lemma det_reduced: "exact_det [[Fin 4, Fin 6], [Fin 6, Fin 10]] = Fin 4"
  by code_simp

lemma inv_reduced:
  "exact_inv [[Fin 4, Fin 6], [Fin 6, Fin 10]] = [[Fin (5 / 2), Fin (- 3 / 2)], [Fin (- 3 / 2), Fin 1]]"
  by code_simp

lemma XtY_reduced:
  "XtY [[Fin 1, Fin 1], [Fin 1, Fin 2], [Fin 1, Fin 1], [Fin 1, Fin 2]] [Fin 1, Fin 2, Fin 3, Fin 6]
     (Suc (Suc (Suc (Suc 0)))) (Suc (Suc 0)) = [Fin 12, Fin 20]"
  by code_simp

lemma fit_reduced:
  "\<exists>m. fitModel [[Fin 1, Fin 1], [Fin 1, Fin 2], [Fin 1, Fin 1], [Fin 1, Fin 2]]
          [Fin 1, Fin 2, Fin 3, Fin 6] jStat_exact = Inr m
       \<and> rss m = Fin 10 \<and> df m = 2 \<and> beta m = [Fin 0, Fin 2]"
  by (simp add: fitModel_def gram_reduced jStat_exact_def det_reduced inv_reduced XtY_reduced
        Let_def reduce_dot_def elt_def)

lemma gram_full:
  "XtX [[Fin 1, Fin 1, Fin 0], [Fin 1, Fin 2, Fin 0], [Fin 1, Fin 1, Fin 1], [Fin 1, Fin 2, Fin 1]]
     (Suc (Suc (Suc (Suc 0)))) (Suc (Suc (Suc 0)))
   = [[Fin 4, Fin 6, Fin 2], [Fin 6, Fin 10, Fin 3], [Fin 2, Fin 3, Fin 2]]"
  by code_simp

lemma det_full: "exact_det [[Fin 4, Fin 6, Fin 2], [Fin 6, Fin 10, Fin 3], [Fin 2, Fin 3, Fin 2]] = Fin 4"
  by code_simp

lemma inv_full:
  "exact_inv [[Fin 4, Fin 6, Fin 2], [Fin 6, Fin 10, Fin 3], [Fin 2, Fin 3, Fin 2]]
   = [[Fin (11 / 4), Fin (- 3 / 2), Fin (- 1 / 2)], [Fin (- 3 / 2), Fin 1, Fin 0],
      [Fin (- 1 / 2), Fin 0, Fin 1]]"
  by code_simp

lemma XtY_full:
  "XtY [[Fin 1, Fin 1, Fin 0], [Fin 1, Fin 2, Fin 0], [Fin 1, Fin 1, Fin 1], [Fin 1, Fin 2, Fin 1]]
     [Fin 1, Fin 2, Fin 3, Fin 6] (Suc (Suc (Suc (Suc 0)))) (Suc (Suc (Suc 0)))
   = [Fin 12, Fin 20, Fin 9]"
  by code_simp

lemma fit_full:
  "\<exists>m. fitModel [[Fin 1, Fin 1, Fin 0], [Fin 1, Fin 2, Fin 0], [Fin 1, Fin 1, Fin 1], [Fin 1, Fin 2, Fin 1]]
          [Fin 1, Fin 2, Fin 3, Fin 6] jStat_exact = Inr m
       \<and> rss m = Fin 1 \<and> df m = 1 \<and> beta m = [Fin (- 3 / 2), Fin 2, Fin 3]"
  by (simp add: fitModel_def gram_full jStat_exact_def det_full inv_full XtY_full
        Let_def reduce_dot_def elt_def)

lemma analyze_example:
  "\<exists>r. analyze runtime_exact heap_example self_example = (Inr r, heap_encoded)
       \<and> levels r = [Str ''A'', Str ''B'']
       \<and> rss (reducedModel r) = Fin 10 \<and> rss (fullModel r) = Fin 1
       \<and> df (fullModel r) = 1
       \<and> fStatistic (partialF r) = Fin 9"
proof -
  obtain m1 where m1: "fitModel [[Fin 1, Fin 1], [Fin 1, Fin 2], [Fin 1, Fin 1], [Fin 1, Fin 2]]
          [Fin 1, Fin 2, Fin 3, Fin 6] jStat_exact = Inr m1" "rss m1 = Fin 10" "df m1 = 2"
    using fit_reduced by blast
  obtain m2 where m2: "fitModel [[Fin 1, Fin 1, Fin 0], [Fin 1, Fin 2, Fin 0], [Fin 1, Fin 1, Fin 1], [Fin 1, Fin 2, Fin 1]]
          [Fin 1, Fin 2, Fin 3, Fin 6] jStat_exact = Inr m2" "rss m2 = Fin 1" "df m2 = 1"
    using fit_full by blast
  have names: "dummyName runtime_exact (groupVar self_example) (Str ''B'') = ''group_B''"
    by (simp add: dummyName_def self_example_def)
  have covs: "covariates self_example = [''age'']" by (simp add: self_example_def)
  have J: "jstat runtime_exact = jStat_exact" by (simp add: runtime_exact_def)
  show ?thesis
    unfolding analyze_def encode_example
    by (simp add: names covs build_reduced build_full J m1 m2 partialFTest_returns Let_def)
qed

text \<open>
  C4: the comparator returns \<^verbatim>\<open>F = ((RSS_reduced - RSS_full) / q) / (RSS_full / df_full)\<close>
  and the p-value \<open>1 - CDF_F(F; q, df_full)\<close>, with the division of the language in
  general and with the division of the reals when no divisor is zero; and the analysis
  calls it with the residual sums and degrees of freedom of its two fitted models and
  with \<open>q\<close> the number of levels after the first, which is \<open>|levels| - 1\<close>.
\<close>

theorem C4_partial_F_test:
  "partialFTest a b dr dfull q J =
     Inr \<lparr> fStatistic = jdiv (jdiv (jsub a b) (Fin (real_of_int q)))
                              (jdiv b (Fin (real_of_int dfull))),
           pValue = jsub (Fin 1)
                      (centralF_cdf J
                         (jdiv (jdiv (jsub a b) (Fin (real_of_int q)))
                               (jdiv b (Fin (real_of_int dfull))))
                         (Fin (real_of_int q)) (Fin (real_of_int dfull))) \<rparr>
   \<and> (q \<noteq> 0 \<and> dfull \<noteq> 0 \<and> y \<noteq> 0 \<longrightarrow>
        partialFTest (Fin x) (Fin y) dr dfull q J =
          Inr \<lparr> fStatistic = Fin (((x - y) / real_of_int q) / (y / real_of_int dfull)),
                pValue = jsub (Fin 1)
                           (centralF_cdf J
                              (Fin (((x - y) / real_of_int q) / (y / real_of_int dfull)))
                              (Fin (real_of_int q)) (Fin (real_of_int dfull))) \<rparr>)
   \<and> (analyze rt h self = (Inr r, h') \<longrightarrow>
        partialFTest (rss (reducedModel r)) (rss (fullModel r)) (df (reducedModel r))
           (df (fullModel r)) (int (length (drop 1 (levels r)))) (jstat rt) = Inr (partialF r)
        \<and> (levels r \<noteq> [] \<longrightarrow> int (length (drop 1 (levels r))) = int (length (levels r)) - 1))"
proof -
  have "levels r \<noteq> [] \<longrightarrow> int (length (drop 1 (levels r))) = int (length (levels r)) - 1"
    by (cases "levels r") simp_all
  then show ?thesis
    using analyze_Inr[of rt h self r h'] by (simp add: partialFTest_returns)
qed

text \<open>
  C4, at the example store: \<open>RSS_reduced = 10\<close>, \<open>RSS_full = 1\<close>, \<open>df_full = 1\<close>, two levels,
  \<open>q = 1\<close> and \<open>F = 9\<close>.
\<close>

theorem C4_witness:
  "\<exists>r. analyze runtime_exact heap_example self_example = (Inr r, heap_encoded)
       \<and> levels r = [Str ''A'', Str ''B'']
       \<and> rss (reducedModel r) = Fin 10 \<and> rss (fullModel r) = Fin 1 \<and> df (fullModel r) = 1
       \<and> partialFTest (Fin 10) (Fin 1) (df (reducedModel r)) 1 1 jStat_exact = Inr (partialF r)
       \<and> fStatistic (partialF r) = Fin (((10 - 1) / 1) / (1 / 1))"
proof -
  obtain r where r: "analyze runtime_exact heap_example self_example = (Inr r, heap_encoded)"
      "levels r = [Str ''A'', Str ''B'']" "rss (reducedModel r) = Fin 10"
      "rss (fullModel r) = Fin 1" "df (fullModel r) = 1" "fStatistic (partialF r) = Fin 9"
    using analyze_example by blast
  have J: "jstat runtime_exact = jStat_exact" by (simp add: runtime_exact_def)
  have "partialFTest (rss (reducedModel r)) (rss (fullModel r)) (df (reducedModel r))
           (df (fullModel r)) (int (length (drop 1 (levels r)))) (jstat runtime_exact)
          = Inr (partialF r)"
    using C4_partial_F_test[of "Fin 10" "Fin 1" "df (reducedModel r)" 1 1 jStat_exact 1 10
            runtime_exact heap_example self_example r heap_encoded] r(1)
    by blast
  then have "partialFTest (Fin 10) (Fin 1) (df (reducedModel r)) 1 1 jStat_exact
          = Inr (partialF r)"
    by (simp add: r J)
  then show ?thesis
    using r by (intro exI[of _ r]) simp
qed

subsection \<open>A group column with one level\<close>















subsection \<open>The store after an analysis\<close>

lemma heap_get_append: "a < length h \<Longrightarrow> heap_get (h @ ext) a = heap_get h a"
  by (simp add: heap_get_def nth_append)

lemma get_column_append:
  assumes "valid_frame h fr"
  shows "frame_columns (h @ ext) fr = frame_columns h fr"
    and "get_column (h @ ext) fr name = get_column h fr name"
proof -
  show fc: "frame_columns (h @ ext) fr = frame_columns h fr"
    using assms by (simp add: frame_columns_def valid_frame_def heap_get_append)
  show "get_column (h @ ext) fr name = get_column h fr name"
  proof (cases "map_of (frame_columns h fr) name")
    case None
    then show ?thesis by (simp add: get_column_def fc)
  next
    case (Some a)
    then have "(name, a) \<in> set (frame_columns h fr)" by (rule map_of_SomeD)
    then have "a < length h" using assms by (auto simp: valid_frame_def)
    then show ?thesis using Some by (simp add: get_column_def fc array_at_def heap_get_append)
  qed
qed

text \<open>
  C9: an analysis call, whether it returns or throws, leaves every object that was in the
  store as it was: the store after the call is the store before it with new objects
  behind. So the input frame, its object of columns and every column are unchanged;
  the frame the encoder returns and its object of columns are new objects.
\<close>

theorem C9_input_unchanged:
  "length h \<le> length (snd (analyze rt h self))
   \<and> (\<forall>a < length h. heap_get (snd (analyze rt h self)) a = heap_get h a)
   \<and> (\<forall>fr. get_frame h (this_df self) = Some fr \<and> valid_frame h fr \<longrightarrow>
         get_frame (snd (analyze rt h self)) (this_df self) = Some fr
       \<and> frame_columns (snd (analyze rt h self)) fr = frame_columns h fr
       \<and> (\<forall>name. get_column (snd (analyze rt h self)) fr name = get_column h fr name))
   \<and> (\<forall>enc lv fr'. fst (encodeDummies rt h self) = Inr (enc, lv)
         \<and> get_frame (snd (encodeDummies rt h self)) enc = Some fr' \<longrightarrow>
         length h \<le> enc \<and> length h \<le> u_data fr')"
proof -
  obtain ext where ext: "snd (analyze rt h self) = h @ ext"
    using encodeDummies_extends[of rt h self] by (auto simp: analyze_heap)
  have 1: "length h \<le> length (snd (analyze rt h self))" by (simp add: ext)
  have 2: "\<forall>a < length h. heap_get (snd (analyze rt h self)) a = heap_get h a"
    by (simp add: ext heap_get_append)
  have 3: "get_frame (snd (analyze rt h self)) (this_df self) = Some fr
       \<and> frame_columns (snd (analyze rt h self)) fr = frame_columns h fr
       \<and> (\<forall>name. get_column (snd (analyze rt h self)) fr name = get_column h fr name)"
    if fr: "get_frame h (this_df self) = Some fr" and v: "valid_frame h fr" for fr
  proof -
    have "this_df self < length h"
      using fr by (auto simp: get_frame_def heap_get_def split: if_splits)
    then have "get_frame (h @ ext) (this_df self) = Some fr"
      using fr by (simp add: get_frame_def heap_get_append)
    then show ?thesis using get_column_append[OF v] by (simp add: ext)
  qed
  have 4: "length h \<le> enc \<and> length h \<le> u_data fr'"
    if e: "fst (encodeDummies rt h self) = Inr (enc, lv)"
      and f: "get_frame (snd (encodeDummies rt h self)) enc = Some fr'" for enc lv fr'
  proof (cases "get_frame h (this_df self)")
    case None
    then show ?thesis using e by (simp add: encodeDummies_no_frame)
  next
    case (Some fr)
    let ?vals = "case get_column h fr (groupVar self) of None \<Rightarrow> [] | Some c \<Rightarrow> cells c"
    let ?ls = "drop 1 (js_sort rt (Set_of ?vals))"
    obtain F where F: "u_data F = length h"
      and enc: "encodeDummies rt h self =
       (Inr (length h + 1 + length ?ls, js_sort rt (Set_of ?vals)),
        h @ [Columns (dummy_entries rt (groupVar self) (length h + 1) ?ls (frame_columns h fr))]
          @ map (\<lambda>l. Column (NumCol (indicator ?vals l))) ?ls @ [Frame F])"
      using encodeDummies_closed[OF Some refl refl, of rt] by blast
    have a: "enc = length h + 1 + length ?ls" using e enc by auto
    have "fr' = F"
      using f unfolding enc a by (simp add: get_frame_def heap_get_def nth_append)
    then show ?thesis using F a by simp
  qed
  show ?thesis using 1 2 3 4 by blast
qed

lemma encode_duplicate:
  "encodeDummies runtime_exact heap_example self_duplicate
     = (Inr (7, [Str ''A'', Str ''B'']), heap_encoded)"
  by code_simp

lemma build_duplicate:
  "buildDesignMatrix runtime_exact heap_encoded self_duplicate 7 [''age'', ''age''] =
     Inr \<lparr> design_X = [[Fin 1, Fin 1, Fin 1], [Fin 1, Fin 2, Fin 2],
                       [Fin 1, Fin 1, Fin 1], [Fin 1, Fin 2, Fin 2]],
           design_y = [Fin 1, Fin 2, Fin 3, Fin 6] \<rparr>"
  by code_simp

lemma gram_twice:
  "gram [[Fin 1, Fin 1, Fin 1], [Fin 1, Fin 2, Fin 2], [Fin 1, Fin 1, Fin 1], [Fin 1, Fin 2, Fin 2]]
     = [[Fin 4, Fin 6, Fin 6], [Fin 6, Fin 10, Fin 10], [Fin 6, Fin 10, Fin 10]]"
  unfolding gram_def by code_simp

lemma det_twice:
  "exact_det [[Fin 4, Fin 6, Fin 6], [Fin 6, Fin 10, Fin 10], [Fin 6, Fin 10, Fin 10]] = Fin 0"
  by code_simp

lemma fit_duplicate:
  "fitModel [[Fin 1, Fin 1, Fin 1], [Fin 1, Fin 2, Fin 2], [Fin 1, Fin 1, Fin 1], [Fin 1, Fin 2, Fin 2]]
     [Fin 1, Fin 2, Fin 3, Fin 6] jStat_exact = Inl SingularMatrixError"
  by (rule fitModel_singular)
     (simp_all add: singular_def gram_twice jStat_exact_def det_twice)

lemma analyze_duplicate:
  "analyze runtime_exact heap_example self_duplicate = (Inl SingularMatrixError, heap_encoded)"
proof -
  have covs: "covariates self_duplicate = [''age'', ''age'']" by (simp add: self_duplicate_def)
  have J: "jstat runtime_exact = jStat_exact" by (simp add: runtime_exact_def)
  show ?thesis
    unfolding analyze_def encode_duplicate
    by (simp add: covs build_duplicate J fit_duplicate Let_def)
qed

text \<open>
  C9, at the example store: after the analysis that returns, and after the analysis
  with the covariate named twice, which throws the singular-matrix error, the five
  objects of the input are where they were, unchanged; the copy with \<^verbatim>\<open>group_B\<close> is the
  new object at address 5.
\<close>

theorem C9_witness:
  "snd (analyze runtime_exact heap_example self_example) = heap_encoded
   \<and> analyze runtime_exact heap_example self_duplicate = (Inl SingularMatrixError, heap_encoded)
   \<and> length heap_example \<le> length heap_encoded
   \<and> heap_get heap_encoded 0 = heap_get heap_example 0
   \<and> heap_get heap_encoded 3 = heap_get heap_example 3
   \<and> get_frame heap_encoded 4 = get_frame heap_example 4"
proof -
  have a: "snd (analyze runtime_exact heap_example self_example) = heap_encoded"
    using analyze_example by auto
  have l: "length heap_example = 5" by (simp add: heap_example_def)
  have "heap_get heap_encoded 4 = heap_get heap_example 4"
    using C9_input_unchanged[of heap_example runtime_exact self_duplicate]
    by (simp add: analyze_duplicate l)
  then have "get_frame heap_encoded 4 = get_frame heap_example 4" by (simp add: get_frame_def)
  then show ?thesis
    using C9_input_unchanged[of heap_example runtime_exact self_example]
    by (simp add: a l analyze_duplicate)
qed

section \<open>The singularity check\<close>

subsection \<open>A determinant with two equal columns\<close>

lemma length_del [simp]: "i < length xs \<Longrightarrow> length (del i xs) = length xs - 1"
  by (simp add: del_def)


lemma length_swap_adj [simp]: "length (swap_adj j r) = length r"
  by (simp add: swap_adj_def)











subsection \<open>The Gram matrix of the loops\<close>














end
